theory Spec2Isabelle
  imports Main "HOL-Library.Sublist"
begin

section \<open>Python values\<close>

text \<open>
  A Python \<open>str\<close> is a sequence of Unicode code points: indexing, iteration,
  \<open>replace\<close> and \<open>strip\<close> all work on code points. It is modelled as a list of
  code points (natural numbers); \<open>ascii\<close> reads an ASCII literal as such a list.
\<close>

type_synonym pystr = "nat list"

abbreviation (input) ascii :: "string \<Rightarrow> pystr" where
  "ascii s \<equiv> map of_char s"

text \<open>The non-ASCII characters of the program's literals.\<close>

definition cross_mark :: pystr where
  "cross_mark = [0x274C]"

definition books :: pystr where
  "books = [0x1F4DA]"

definition direct_hit :: pystr where
  "direct_hit = [0x1F3AF]"

definition open_book :: pystr where
  "open_book = [0x1F4D6]"

definition calendar :: pystr where
  "calendar = [0x1F4C5]"

text \<open>\<open>str(n)\<close> of an integer: its decimal digits, with a minus sign when negative.\<close>

fun str_nat :: "nat \<Rightarrow> pystr" where
  "str_nat n = (if n < 10 then [48 + n] else str_nat (n div 10) @ [48 + n mod 10])"

declare str_nat.simps [simp del]

definition str_int :: "int \<Rightarrow> pystr" where
  "str_int i = (if i < 0 then 45 # str_nat (nat (- i)) else str_nat (nat i))"

text \<open>\<open>sep.join(xs)\<close>.\<close>

fun join :: "pystr \<Rightarrow> pystr list \<Rightarrow> pystr" where
  "join sep [] = []"
| "join sep [x] = x"
| "join sep (x # y # ys) = x @ sep @ join sep (y # ys)"

text \<open>
  \<open>s.replace(old, new)\<close>: the occurrences of \<open>old\<close> are found from left to right
  and do not overlap. An empty \<open>old\<close> matches before every character and at the end.
\<close>

function replace_from :: "pystr \<Rightarrow> pystr \<Rightarrow> pystr \<Rightarrow> pystr" where
  "replace_from old new [] = []"
| "replace_from old new (c # cs) =
     (if old \<noteq> [] \<and> prefix old (c # cs)
      then new @ replace_from old new (drop (length old) (c # cs))
      else c # replace_from old new cs)"
  by pat_completeness auto
termination
  by (relation "measure (\<lambda>(old, new, s). length s)") (auto simp: neq_Nil_conv)

definition replace :: "pystr \<Rightarrow> pystr \<Rightarrow> pystr \<Rightarrow> pystr" where
  "replace s old new =
     (if old = [] then new @ concat (map (\<lambda>c. c # new) s) else replace_from old new s)"

text \<open>
  \<open>s.strip()\<close> removes the leading and trailing characters for which
  \<open>str.isspace\<close> holds: the Unicode white space of CPython.
\<close>

definition isspace :: "nat \<Rightarrow> bool" where
  "isspace c \<longleftrightarrow>
     (0x09 \<le> c \<and> c \<le> 0x0D) \<or> (0x1C \<le> c \<and> c \<le> 0x20) \<or> c = 0x85 \<or> c = 0xA0 \<or>
     c = 0x1680 \<or> (0x2000 \<le> c \<and> c \<le> 0x200A) \<or> c = 0x2028 \<or> c = 0x2029 \<or>
     c = 0x202F \<or> c = 0x205F \<or> c = 0x3000"

definition strip :: "pystr \<Rightarrow> pystr" where
  "strip s = rev (dropWhile isspace (rev (dropWhile isspace s)))"

text \<open>\<open>x or default\<close> on an optional string: \<open>None\<close> and the empty string are falsy.\<close>

definition truthy :: "pystr option \<Rightarrow> bool" where
  "truthy x = (case x of None \<Rightarrow> False | Some s \<Rightarrow> s \<noteq> [])"

definition or_else :: "pystr option \<Rightarrow> pystr \<Rightarrow> pystr" where
  "or_else x d = (if truthy x then the x else d)"

section \<open>The grade suffix\<close>

text \<open>
  \<open>get_grade_suffix\<close>. The grade is an integer, as in the specification's request
  parameters, so that \<open>int(grade)\<close> is the identity.
\<close>

definition get_grade_suffix :: "int \<Rightarrow> pystr" where
  "get_grade_suffix grade =
     (if grade = 1 then ascii ''st''
      else if grade = 2 then ascii ''nd''
      else if grade = 3 then ascii ''rd''
      else ascii ''th'')"

section \<open>Exceptions\<close>

text \<open>
  A raised exception, with the text \<open>str(e)\<close> gives for it. The constructor is the
  class that decides which \<open>except\<close> clause catches it: \<open>RequestException\<close> stands
  for \<open>requests.exceptions.RequestException\<close> and its subclasses,
  \<open>JSONDecodeError\<close> for \<open>json.JSONDecodeError\<close>, and the others are caught by
  \<open>except Exception\<close> only.
\<close>

datatype py_exn =
    RequestException pystr
  | JSONDecodeError pystr
  | KeyError pystr
  | IndexError pystr
  | TypeError pystr
  | AttributeError pystr
  | OtherException pystr

fun str_exn :: "py_exn \<Rightarrow> pystr" where
  "str_exn (RequestException m) = m"
| "str_exn (JSONDecodeError m) = m"
| "str_exn (KeyError m) = m"
| "str_exn (IndexError m) = m"
| "str_exn (TypeError m) = m"
| "str_exn (AttributeError m) = m"
| "str_exn (OtherException m) = m"

text \<open>Sequencing of steps that may raise: the first exception ends the computation.\<close>

definition and_then :: "'e + 'a \<Rightarrow> ('a \<Rightarrow> 'e + 'b) \<Rightarrow> 'e + 'b" where
  "and_then m f = (case m of Inl e \<Rightarrow> Inl e | Inr x \<Rightarrow> f x)"

text \<open>A \<open>for\<close> loop over a list whose body updates an accumulator and may raise.\<close>

fun for_each :: "('a \<Rightarrow> 'b \<Rightarrow> 'e + 'a) \<Rightarrow> 'b list \<Rightarrow> 'a \<Rightarrow> 'e + 'a" where
  "for_each body [] acc = Inr acc"
| "for_each body (x # xs) acc =
     (case body acc x of Inl e \<Rightarrow> Inl e | Inr acc' \<Rightarrow> for_each body xs acc')"

text \<open>The exception a step raised, if any.\<close>

definition raised :: "'e + 'a \<Rightarrow> 'e option" where
  "raised m = (case m of Inl e \<Rightarrow> Some e | Inr x \<Rightarrow> None)"

section \<open>Values decoded from JSON\<close>

text \<open>
  What \<open>json.loads\<close> and \<open>response.json()\<close> return: \<open>None\<close>, a \<open>bool\<close>, an
  \<open>int\<close>, a \<open>float\<close>, a \<open>str\<close>, a \<open>list\<close> or a \<open>dict\<close> with string keys (an
  association list in insertion order, its keys distinct). The program only ever prints
  a float, so a float is represented by its \<open>repr\<close> text.
\<close>

datatype jvalue =
    JNull
  | JBool bool
  | JInt int
  | JFloat pystr
  | JStr pystr
  | JArr "jvalue list"
  | JObj "(pystr \<times> jvalue) list"

fun type_name :: "jvalue \<Rightarrow> pystr" where
  "type_name JNull = ascii ''NoneType''"
| "type_name (JBool b) = ascii ''bool''"
| "type_name (JInt i) = ascii ''int''"
| "type_name (JFloat r) = ascii ''float''"
| "type_name (JStr s) = ascii ''str''"
| "type_name (JArr xs) = ascii ''list''"
| "type_name (JObj kvs) = ascii ''dict''"

definition quoted :: "pystr \<Rightarrow> pystr" where
  "quoted s = 39 # s @ [39]"

text \<open>
  \<open>v[k]\<close> for a string key \<open>k\<close>: a lookup in a dict (\<open>KeyError\<close> when the key is
  missing), a \<open>TypeError\<close> on every other value. The texts of the interpreter's own
  exceptions are CPython's.
\<close>

fun getitem :: "jvalue \<Rightarrow> pystr \<Rightarrow> py_exn + jvalue" where
  "getitem (JObj kvs) k =
     (case map_of kvs k of None \<Rightarrow> Inl (KeyError (quoted k)) | Some v \<Rightarrow> Inr v)"
| "getitem (JArr xs) k =
     Inl (TypeError (ascii ''list indices must be integers or slices, not str''))"
| "getitem (JStr s) k =
     Inl (TypeError (ascii ''string indices must be integers, not '' @ quoted (ascii ''str'')))"
| "getitem v k =
     Inl (TypeError (quoted (type_name v) @ ascii '' object is not subscriptable''))"

text \<open>\<open>v[0]\<close>. The keys of a decoded dict are strings, so the key \<open>0\<close> is never there.\<close>

fun getitem0 :: "jvalue \<Rightarrow> py_exn + jvalue" where
  "getitem0 (JArr []) = Inl (IndexError (ascii ''list index out of range''))"
| "getitem0 (JArr (x # xs)) = Inr x"
| "getitem0 (JStr []) = Inl (IndexError (ascii ''string index out of range''))"
| "getitem0 (JStr (c # cs)) = Inr (JStr [c])"
| "getitem0 (JObj kvs) = Inl (KeyError (ascii ''0''))"
| "getitem0 v =
     Inl (TypeError (quoted (type_name v) @ ascii '' object is not subscriptable''))"

text \<open>
  The items a \<open>for\<close> loop visits: the elements of a list, the keys of a dict, the
  characters of a string; a \<open>TypeError\<close> on every other value.
\<close>

fun iterate :: "jvalue \<Rightarrow> py_exn + jvalue list" where
  "iterate (JArr xs) = Inr xs"
| "iterate (JObj kvs) = Inr (map (\<lambda>kv. JStr (fst kv)) kvs)"
| "iterate (JStr s) = Inr (map (\<lambda>c. JStr [c]) s)"
| "iterate v = Inl (TypeError (quoted (type_name v) @ ascii '' object is not iterable''))"

section \<open>The platform and the world\<close>

text \<open>
  The libraries the program calls are parameters of the model:
  \<^item> \<open>post\<close>: what \<open>requests.post\<close> does with a request (an exception or a response);
  \<^item> \<open>loads\<close>: \<open>json.loads\<close>;
  \<^item> \<open>now\<close>: the clock, \<open>now n\<close> being what the \<open>n\<close>-th call of \<open>datetime.now()\<close>
    returns;
  \<^item> \<open>repr\<close>: the text Python prints for a list or a dict.
  A response is what its two methods do: \<open>raise_for_status()\<close> raises or not, and
  \<open>json()\<close> returns a value or raises.
\<close>

record message =
  role :: pystr
  content :: pystr

record payload =
  model :: pystr
  max_tokens :: int
  messages :: "message list"

record request =
  url :: pystr
  headers :: "(pystr \<times> pystr) list"
  json_data :: payload

record response =
  raise_for_status :: "py_exn option"
  json_result :: "py_exn + jvalue"

record datetime =
  dt_year :: nat
  dt_month :: nat
  dt_day :: nat
  dt_hour :: nat
  dt_minute :: nat
  dt_second :: nat

record platform =
  post :: "request \<Rightarrow> py_exn + response"
  loads :: "pystr \<Rightarrow> py_exn + jvalue"
  now :: "nat \<Rightarrow> datetime"
  repr :: "jvalue \<Rightarrow> pystr"

text \<open>
  The state the program changes: the requests sent over the network so far, and how
  many times the clock has been read.
\<close>

record world =
  sent :: "request list"
  clock_reads :: nat

text \<open>\<open>datetime.now().strftime('%Y-%m-%d')\<close>.\<close>

definition zero_pad :: "nat \<Rightarrow> pystr \<Rightarrow> pystr" where
  "zero_pad w s = replicate (w - length s) 48 @ s"

definition strftime_ymd :: "datetime \<Rightarrow> pystr" where
  "strftime_ymd d =
     zero_pad 4 (str_nat (dt_year d)) @ ascii ''-'' @ zero_pad 2 (str_nat (dt_month d)) @
     ascii ''-'' @ zero_pad 2 (str_nat (dt_day d))"

definition today :: "platform \<Rightarrow> world \<Rightarrow> pystr \<times> world" where
  "today P w =
     (strftime_ymd (now P (clock_reads w)), w\<lparr>clock_reads := Suc (clock_reads w)\<rparr>)"

text \<open>A value inside an f-string: \<open>str(v)\<close>.\<close>

definition py_str :: "platform \<Rightarrow> jvalue \<Rightarrow> pystr" where
  "py_str P v =
     (case v of
        JStr s \<Rightarrow> s
      | JInt i \<Rightarrow> str_int i
      | JFloat r \<Rightarrow> r
      | JNull \<Rightarrow> ascii ''None''
      | JBool b \<Rightarrow> (if b then ascii ''True'' else ascii ''False'')
      | _ \<Rightarrow> repr P v)"

section \<open>The renderers\<close>

text \<open>The loops that both renderers run with the same body.\<close>

fun numbered :: "platform \<Rightarrow> int \<Rightarrow> jvalue list \<Rightarrow> pystr \<Rightarrow> pystr" where
  "numbered P i [] output = output"
| "numbered P i (obj # objs) output =
     numbered P (i + 1) objs (output @ str_int i @ ascii ''. '' @ py_str P obj @ ascii ''\<newline>'')"

fun bullets :: "platform \<Rightarrow> jvalue list \<Rightarrow> pystr \<Rightarrow> pystr" where
  "bullets P [] output = output"
| "bullets P (x # xs) output =
     bullets P xs (output @ ascii ''- '' @ py_str P x @ ascii ''\<newline>'')"

subsection \<open>\<open>format_curriculum_display\<close>\<close>

definition display_subject :: "platform \<Rightarrow> pystr \<Rightarrow> jvalue \<Rightarrow> py_exn + pystr" where
  "display_subject P output subject =
     and_then (getitem subject (ascii ''name'')) (\<lambda>nm.
     and_then (getitem subject (ascii ''weeklyHours'')) (\<lambda>hrs.
     let output = output @ ascii ''### '' @ py_str P nm @ ascii '' ('' @ py_str P hrs @
           ascii '' hrs/week)\<newline>\<newline>**Objectives:**\<newline>'' in
     and_then (and_then (getitem subject (ascii ''objectives'')) iterate) (\<lambda>objs.
     let output = numbered P 1 objs output;
         output = output @ ascii ''\<newline>**Activities:**\<newline>'' in
     and_then (and_then (getitem subject (ascii ''activities'')) iterate) (\<lambda>acts.
     let output = bullets P acts output;
         output = output @ ascii ''\<newline>**Assessments:**\<newline>'' in
     and_then (and_then (getitem subject (ascii ''assessments'')) iterate) (\<lambda>asss.
     let output = bullets P asss output;
         output = output @ ascii ''\<newline>**Resources:**\<newline>'' in
     and_then (and_then (getitem subject (ascii ''resources'')) iterate) (\<lambda>ress.
     let output = bullets P ress output in
     Inr (output @ ascii ''\<newline>---\<newline>\<newline>'')))))))"

definition display_period :: "platform \<Rightarrow> pystr \<Rightarrow> jvalue \<Rightarrow> py_exn + pystr" where
  "display_period P output period =
     and_then (getitem period (ascii ''time'')) (\<lambda>t.
     and_then (getitem period (ascii ''subject'')) (\<lambda>s.
     and_then (getitem period (ascii ''activity'')) (\<lambda>a.
     Inr (output @ ascii ''**'' @ py_str P t @ ascii ''** - *'' @ py_str P s @ ascii '':* '' @
          py_str P a @ ascii ''\<newline>''))))"

definition display_day :: "platform \<Rightarrow> pystr \<Rightarrow> jvalue \<Rightarrow> py_exn + pystr" where
  "display_day P output dy =
     and_then (getitem dy (ascii ''day'')) (\<lambda>d.
     let output = output @ ascii ''### '' @ py_str P d @ ascii ''\<newline>'' in
     and_then (and_then (getitem dy (ascii ''periods'')) iterate) (\<lambda>ps.
     and_then (for_each (display_period P) ps output) (\<lambda>output.
     Inr (output @ ascii ''\<newline>''))))"

definition display_header :: "pystr \<Rightarrow> pystr \<Rightarrow> pystr \<Rightarrow> pystr \<Rightarrow> pystr" where
  "display_header student grade date ov =
     ascii ''# '' @ books @ ascii '' Homeschool Curriculum\<newline>'' @
     ascii ''**Student:** '' @ student @ ascii ''  \<newline>'' @
     ascii ''**Grade:** '' @ grade @ ascii ''  \<newline>'' @
     ascii ''**Generated:** '' @ date @ ascii ''\<newline>'' @
     ascii ''\<newline>'' @
     ascii ''---\<newline>'' @
     ascii ''\<newline>'' @
     ascii ''## '' @ direct_hit @ ascii '' Overview\<newline>'' @
     ov @ ascii ''\<newline>'' @
     ascii ''\<newline>'' @
     ascii ''---\<newline>'' @
     ascii ''\<newline>'' @
     ascii ''## '' @ open_book @ ascii '' Subject Plans\<newline>'' @
     ascii ''\<newline>''"

definition format_curriculum_display ::
  "platform \<Rightarrow> jvalue \<Rightarrow> pystr option \<Rightarrow> int \<Rightarrow> world \<Rightarrow> (py_exn + pystr) \<times> world" where
  "format_curriculum_display P curriculum student_name grade_level w =
     (let (date, w') = today P w in
      (and_then (getitem curriculum (ascii ''overview'')) (\<lambda>ov.
       let output = display_header (or_else student_name (ascii ''Student''))
                      (str_int grade_level) date (py_str P ov) in
       and_then (and_then (getitem curriculum (ascii ''subjects'')) iterate) (\<lambda>subs.
       and_then (for_each (display_subject P) subs output) (\<lambda>output.
       let output = output @ ascii ''## '' @ calendar @
                      ascii '' Sample Weekly Schedule\<newline>\<newline>'' in
       and_then (and_then (getitem curriculum (ascii ''weeklySchedule'')) iterate) (\<lambda>dys.
       for_each (display_day P) dys output)))), w'))"

subsection \<open>\<open>format_curriculum_text\<close>\<close>

definition text_subject :: "platform \<Rightarrow> pystr \<Rightarrow> jvalue \<Rightarrow> py_exn + pystr" where
  "text_subject P output subject =
     and_then (getitem subject (ascii ''name'')) (\<lambda>nm.
     let output = output @ ascii ''\<newline>'' @ py_str P nm @ ascii ''\<newline>'' in
     and_then (getitem subject (ascii ''weeklyHours'')) (\<lambda>hrs.
     let output = output @ ascii ''Weekly Hours: '' @ py_str P hrs @ ascii ''\<newline>\<newline>'';
         output = output @ ascii ''Objectives:\<newline>'' in
     and_then (and_then (getitem subject (ascii ''objectives'')) iterate) (\<lambda>objs.
     let output = numbered P 1 objs output;
         output = output @ ascii ''\<newline>Activities:\<newline>'' in
     and_then (and_then (getitem subject (ascii ''activities'')) iterate) (\<lambda>acts.
     let output = bullets P acts output;
         output = output @ ascii ''\<newline>Assessments:\<newline>'' in
     and_then (and_then (getitem subject (ascii ''assessments'')) iterate) (\<lambda>asss.
     let output = bullets P asss output;
         output = output @ ascii ''\<newline>Resources:\<newline>'' in
     and_then (and_then (getitem subject (ascii ''resources'')) iterate) (\<lambda>ress.
     let output = bullets P ress output in
     Inr (output @ ascii ''\<newline>'' @ replicate 50 45 @ ascii ''\<newline>'')))))))"

definition text_period :: "platform \<Rightarrow> pystr \<Rightarrow> jvalue \<Rightarrow> py_exn + pystr" where
  "text_period P output period =
     and_then (getitem period (ascii ''time'')) (\<lambda>t.
     and_then (getitem period (ascii ''subject'')) (\<lambda>s.
     and_then (getitem period (ascii ''activity'')) (\<lambda>a.
     Inr (output @ ascii ''  '' @ py_str P t @ ascii '' - '' @ py_str P s @ ascii '': '' @
          py_str P a @ ascii ''\<newline>''))))"

definition text_day :: "platform \<Rightarrow> pystr \<Rightarrow> jvalue \<Rightarrow> py_exn + pystr" where
  "text_day P output dy =
     and_then (getitem dy (ascii ''day'')) (\<lambda>d.
     let output = output @ ascii ''\<newline>'' @ py_str P d @ ascii '':\<newline>'' in
     and_then (and_then (getitem dy (ascii ''periods'')) iterate) (\<lambda>ps.
     for_each (text_period P) ps output))"

definition text_header :: "pystr \<Rightarrow> pystr \<Rightarrow> pystr \<Rightarrow> pystr \<Rightarrow> pystr" where
  "text_header student grade date ov =
     ascii ''HOMESCHOOL CURRICULUM\<newline>'' @
     ascii ''Student: '' @ student @ ascii ''\<newline>'' @
     ascii ''Grade: '' @ grade @ ascii ''\<newline>'' @
     ascii ''Generated: '' @ date @ ascii ''\<newline>'' @
     ascii ''\<newline>'' @
     ov @ ascii ''\<newline>'' @
     ascii ''\<newline>'' @
     ascii ''SUBJECTS:\<newline>''"

definition format_curriculum_text ::
  "platform \<Rightarrow> jvalue \<Rightarrow> pystr option \<Rightarrow> int \<Rightarrow> world \<Rightarrow> (py_exn + pystr) \<times> world" where
  "format_curriculum_text P curriculum student_name grade_level w =
     (let (date, w') = today P w in
      (and_then (getitem curriculum (ascii ''overview'')) (\<lambda>ov.
       let output = text_header (or_else student_name (ascii ''Student''))
                      (str_int grade_level) date (py_str P ov) in
       and_then (and_then (getitem curriculum (ascii ''subjects'')) iterate) (\<lambda>subs.
       and_then (for_each (text_subject P) subs output) (\<lambda>output.
       let output = output @ ascii ''\<newline>WEEKLY SCHEDULE:\<newline>'' in
       and_then (and_then (getitem curriculum (ascii ''weeklySchedule'')) iterate) (\<lambda>dys.
       for_each (text_day P) dys output)))), w'))"

section \<open>The pipeline\<close>

text \<open>
  The generator object: \<open>__init__\<close> sets the endpoint and reads the credential from
  the process environment, the empty string when the variable is not set.
\<close>

record generator =
  api_url :: pystr
  api_key :: pystr

definition init :: "pystr option \<Rightarrow> generator" where
  "init environ_key =
     \<lparr>api_url = ascii ''https://api.anthropic.com/v1/messages'',
      api_key = (case environ_key of None \<Rightarrow> [] | Some k \<Rightarrow> k)\<rparr>"

text \<open>The prompt: the f-string of \<open>generate_curriculum\<close>, piece by piece.\<close>

definition goals_line :: "pystr option \<Rightarrow> pystr" where
  "goals_line goals = (if truthy goals then ascii ''Learning goals: '' @ the goals else [])"

definition build_prompt ::
  "pystr option \<Rightarrow> int \<Rightarrow> pystr \<Rightarrow> pystr \<Rightarrow> int \<Rightarrow> int \<Rightarrow> pystr option \<Rightarrow> pystr" where
  \<open>build_prompt student_name grade_level subjects_str learning_style weeks_per_year
       days_per_week goals =
     ascii ''Create a detailed homeschool curriculum plan for a '' @ str_int grade_level @
     get_grade_suffix grade_level @ ascii '' grade student named '' @
     or_else student_name (ascii ''Student'') @ ascii ''.\<newline>'' @
     ascii ''\<newline>'' @
     ascii ''Subjects to cover: '' @ subjects_str @ ascii ''\<newline>'' @
     ascii ''Learning style: '' @ learning_style @ ascii ''\<newline>'' @
     ascii ''Academic year: '' @ str_int weeks_per_year @ ascii '' weeks, '' @
     str_int days_per_week @ ascii '' days per week\<newline>'' @
     goals_line goals @ ascii ''\<newline>'' @
     ascii ''\<newline>'' @
     ascii ''Please provide:\<newline>'' @
     ascii ''1. A brief overview of what this grade level student should learn\<newline>'' @
     ascii ''2. For each subject:\<newline>'' @
     ascii ''   - Key learning objectives\<newline>'' @
     ascii ''   - Recommended weekly time allocation\<newline>'' @
     ascii ''   - Sample activities tailored to '' @ learning_style @
     ascii '' learning style\<newline>'' @
     ascii ''   - Assessment methods\<newline>'' @
     ascii ''   - Resource suggestions (books, websites, materials)\<newline>'' @
     ascii ''3. A sample weekly schedule\<newline>'' @
     ascii ''\<newline>'' @
     ascii ''Format your response as structured JSON with this exact format:\<newline>'' @
     ascii ''{\<newline>'' @
     ascii ''  "overview": "string",\<newline>'' @
     ascii ''  "subjects": [\<newline>'' @
     ascii ''    {\<newline>'' @
     ascii ''      "name": "string",\<newline>'' @
     ascii ''      "objectives": ["string"],\<newline>'' @
     ascii ''      "weeklyHours": number,\<newline>'' @
     ascii ''      "activities": ["string"],\<newline>'' @
     ascii ''      "assessments": ["string"],\<newline>'' @
     ascii ''      "resources": ["string"]\<newline>'' @
     ascii ''    }\<newline>'' @
     ascii ''  ],\<newline>'' @
     ascii ''  "weeklySchedule": [\<newline>'' @
     ascii ''    {\<newline>'' @
     ascii ''      "day": "Monday",\<newline>'' @
     ascii ''      "periods": [\<newline>'' @
     ascii ''        {"time": "9:00-10:00", "subject": "Math", "activity": "string"}\<newline>'' @
     ascii ''      ]\<newline>'' @
     ascii ''    }\<newline>'' @
     ascii ''  ]\<newline>'' @
     ascii ''}\<newline>'' @
     ascii ''\<newline>'' @
     ascii ''Respond ONLY with valid JSON, no other text.''\<close>

definition build_request :: "generator \<Rightarrow> pystr \<Rightarrow> request" where
  "build_request self prompt =
     \<lparr>url = api_url self,
      headers =
        [(ascii ''Content-Type'', ascii ''application/json''),
         (ascii ''x-api-key'', api_key self),
         (ascii ''anthropic-version'', ascii ''2023-06-01'')],
      json_data =
        \<lparr>model = ascii ''claude-sonnet-4-20250514'',
         max_tokens = 4000,
         messages = [\<lparr>role = ascii ''user'', content = prompt\<rparr>]\<rparr>\<rparr>"

text \<open>\<open>result['content'][0]['text']\<close>.\<close>

definition response_text :: "jvalue \<Rightarrow> py_exn + jvalue" where
  "response_text result =
     and_then (getitem result (ascii ''content'')) (\<lambda>c.
     and_then (getitem0 c) (\<lambda>b. getitem b (ascii ''text'')))"

text \<open>
  \<open>text.replace('```json', '').replace('```', '').strip()\<close>: only a \<open>str\<close> has the
  method \<open>replace\<close>.
\<close>

definition fence :: pystr where
  "fence = ascii ''```''"

definition clean_up :: "pystr \<Rightarrow> pystr" where
  "clean_up s = strip (replace (replace s (fence @ ascii ''json'') []) fence [])"

definition clean_text :: "jvalue \<Rightarrow> py_exn + pystr" where
  "clean_text v =
     (case v of
        JStr s \<Rightarrow> Inr (clean_up s)
      | _ \<Rightarrow> Inl (AttributeError (quoted (type_name v) @
               ascii '' object has no attribute '' @ quoted (ascii ''replace''))))"

text \<open>
  The body of the \<open>try\<close> statement. The request is recorded as sent when
  \<open>requests.post\<close> is called, whatever comes of it.
\<close>

definition try_body ::
  "platform \<Rightarrow> generator \<Rightarrow> pystr \<Rightarrow> pystr option \<Rightarrow> int \<Rightarrow> world \<Rightarrow>
     (py_exn + pystr \<times> pystr) \<times> world" where
  "try_body P self prompt student_name grade_level w =
     (let req = build_request self prompt;
          w1 = w\<lparr>sent := sent w @ [req]\<rparr> in
      case post P req of
        Inl e \<Rightarrow> (Inl e, w1)
      | Inr resp \<Rightarrow>
     (case raise_for_status resp of
        Some e \<Rightarrow> (Inl e, w1)
      | None \<Rightarrow>
     (case and_then (json_result resp) (\<lambda>result.
           and_then (response_text result) (\<lambda>text.
           and_then (clean_text text) (loads P))) of
        Inl e \<Rightarrow> (Inl e, w1)
      | Inr curriculum_data \<Rightarrow>
     (case format_curriculum_display P curriculum_data student_name grade_level w1 of
        (Inl e, w2) \<Rightarrow> (Inl e, w2)
      | (Inr formatted_output, w2) \<Rightarrow>
     (case format_curriculum_text P curriculum_data student_name grade_level w2 of
        (Inl e, w3) \<Rightarrow> (Inl e, w3)
      | (Inr download_text, w3) \<Rightarrow> (Inr (formatted_output, download_text), w3))))))"

text \<open>The three \<open>except\<close> clauses, in their order.\<close>

definition handle_exn :: "py_exn \<Rightarrow> pystr" where
  "handle_exn e =
     (case e of
        RequestException m \<Rightarrow> cross_mark @ ascii '' API request failed: '' @ m
      | JSONDecodeError m \<Rightarrow> cross_mark @ ascii '' Failed to parse curriculum data: '' @ m
      | _ \<Rightarrow> cross_mark @ ascii '' Error: '' @ str_exn e)"

definition no_subjects_message :: pystr where
  "no_subjects_message = cross_mark @ ascii '' Please select at least one subject''"

definition no_key_message :: pystr where
  "no_key_message =
     cross_mark @
     ascii '' API key not configured. Please add ANTHROPIC_API_KEY to Hugging Face Secrets.''"

text \<open>
  \<open>generate_curriculum\<close>. The subjects are a list of strings or \<open>None\<close>; the student
  name and the goals are strings or \<open>None\<close>. The result is the pair the function
  returns, with the world after the call.
\<close>

definition generate_curriculum ::
  "platform \<Rightarrow> generator \<Rightarrow> pystr option \<Rightarrow> int \<Rightarrow> pystr list option \<Rightarrow> pystr \<Rightarrow> int \<Rightarrow> int \<Rightarrow>
     pystr option \<Rightarrow> world \<Rightarrow> (pystr \<times> pystr option) \<times> world" where
  "generate_curriculum P self student_name grade_level selected_subjects learning_style
       weeks_per_year days_per_week goals w =
     (case selected_subjects of
        None \<Rightarrow> ((no_subjects_message, None), w)
      | Some subjects \<Rightarrow>
          if subjects = [] \<or> length subjects = 0 then ((no_subjects_message, None), w)
          else if api_key self = [] then ((no_key_message, None), w)
          else
            let subjects_str = join (ascii '', '') subjects;
                prompt = build_prompt student_name grade_level subjects_str learning_style
                           weeks_per_year days_per_week goals
            in case try_body P self prompt student_name grade_level w of
                 (Inr (formatted_output, download_text), w') \<Rightarrow>
                   ((formatted_output, Some download_text), w')
               | (Inl e, w') \<Rightarrow> ((handle_exn e, None), w'))"

section \<open>The curriculum record\<close>

text \<open>
  The well-formed record of the specification: an overview, an ordered sequence of
  subject plans and an ordered sequence of day schedules, with strings at the leaves and
  a number (an integer, or a float given by its \<open>repr\<close>) for the weekly hours.
  \<open>record_json\<close> is the value \<open>json.loads\<close> returns for such a record.
\<close>

datatype number = IntNumber int | FloatNumber pystr

record period =
  pd_time :: pystr
  pd_subject :: pystr
  pd_activity :: pystr

record subject_plan =
  sp_name :: pystr
  sp_objectives :: "pystr list"
  sp_weeklyHours :: number
  sp_activities :: "pystr list"
  sp_assessments :: "pystr list"
  sp_resources :: "pystr list"

record day_schedule =
  ds_day :: pystr
  ds_periods :: "period list"

record curriculum_record =
  cr_overview :: pystr
  cr_subjects :: "subject_plan list"
  cr_weeklySchedule :: "day_schedule list"

fun number_json :: "number \<Rightarrow> jvalue" where
  "number_json (IntNumber i) = JInt i"
| "number_json (FloatNumber r) = JFloat r"

definition period_json :: "period \<Rightarrow> jvalue" where
  "period_json p =
     JObj [(ascii ''time'', JStr (pd_time p)),
           (ascii ''subject'', JStr (pd_subject p)),
           (ascii ''activity'', JStr (pd_activity p))]"

definition subject_json :: "subject_plan \<Rightarrow> jvalue" where
  "subject_json s =
     JObj [(ascii ''name'', JStr (sp_name s)),
           (ascii ''objectives'', JArr (map JStr (sp_objectives s))),
           (ascii ''weeklyHours'', number_json (sp_weeklyHours s)),
           (ascii ''activities'', JArr (map JStr (sp_activities s))),
           (ascii ''assessments'', JArr (map JStr (sp_assessments s))),
           (ascii ''resources'', JArr (map JStr (sp_resources s)))]"

definition day_json :: "day_schedule \<Rightarrow> jvalue" where
  "day_json d =
     JObj [(ascii ''day'', JStr (ds_day d)),
           (ascii ''periods'', JArr (map period_json (ds_periods d)))]"

definition record_json :: "curriculum_record \<Rightarrow> jvalue" where
  "record_json r =
     JObj [(ascii ''overview'', JStr (cr_overview r)),
           (ascii ''subjects'', JArr (map subject_json (cr_subjects r))),
           (ascii ''weeklySchedule'', JArr (map day_json (cr_weeklySchedule r)))]"

text \<open>
  The renderings as the specification describes them: after the header, one block per
  subject in the order of the record, then one block per day in the order of the record,
  each with one line per period in the order of the day. The objectives of a subject are
  numbered from 1, as \<open>enumerate 1\<close> pairs them; the other lists are bulleted.
\<close>

fun number_text :: "number \<Rightarrow> pystr" where
  "number_text (IntNumber i) = str_int i"
| "number_text (FloatNumber r) = r"

definition numbered_lines :: "pystr list \<Rightarrow> pystr" where
  "numbered_lines objs =
     concat (map (\<lambda>(i, obj). str_int (int i) @ ascii ''. '' @ obj @ ascii ''\<newline>'')
       (enumerate 1 objs))"

definition bullet_lines :: "pystr list \<Rightarrow> pystr" where
  "bullet_lines xs = concat (map (\<lambda>x. ascii ''- '' @ x @ ascii ''\<newline>'') xs)"

definition display_subject_block :: "subject_plan \<Rightarrow> pystr" where
  "display_subject_block s =
     ascii ''### '' @ sp_name s @ ascii '' ('' @ number_text (sp_weeklyHours s) @
     ascii '' hrs/week)\<newline>\<newline>**Objectives:**\<newline>'' @
     numbered_lines (sp_objectives s) @
     ascii ''\<newline>**Activities:**\<newline>'' @ bullet_lines (sp_activities s) @
     ascii ''\<newline>**Assessments:**\<newline>'' @ bullet_lines (sp_assessments s) @
     ascii ''\<newline>**Resources:**\<newline>'' @ bullet_lines (sp_resources s) @
     ascii ''\<newline>---\<newline>\<newline>''"

definition display_period_line :: "period \<Rightarrow> pystr" where
  "display_period_line p =
     ascii ''**'' @ pd_time p @ ascii ''** - *'' @ pd_subject p @ ascii '':* '' @
     pd_activity p @ ascii ''\<newline>''"

definition display_day_block :: "day_schedule \<Rightarrow> pystr" where
  "display_day_block d =
     ascii ''### '' @ ds_day d @ ascii ''\<newline>'' @
     concat (map display_period_line (ds_periods d)) @ ascii ''\<newline>''"

definition display_of :: "pystr \<Rightarrow> pystr \<Rightarrow> pystr \<Rightarrow> curriculum_record \<Rightarrow> pystr" where
  "display_of student grade date r =
     display_header student grade date (cr_overview r) @
     concat (map display_subject_block (cr_subjects r)) @
     ascii ''## '' @ calendar @ ascii '' Sample Weekly Schedule\<newline>\<newline>'' @
     concat (map display_day_block (cr_weeklySchedule r))"

definition text_subject_block :: "subject_plan \<Rightarrow> pystr" where
  "text_subject_block s =
     ascii ''\<newline>'' @ sp_name s @ ascii ''\<newline>'' @
     ascii ''Weekly Hours: '' @ number_text (sp_weeklyHours s) @ ascii ''\<newline>\<newline>'' @
     ascii ''Objectives:\<newline>'' @ numbered_lines (sp_objectives s) @
     ascii ''\<newline>Activities:\<newline>'' @ bullet_lines (sp_activities s) @
     ascii ''\<newline>Assessments:\<newline>'' @ bullet_lines (sp_assessments s) @
     ascii ''\<newline>Resources:\<newline>'' @ bullet_lines (sp_resources s) @
     ascii ''\<newline>'' @ replicate 50 45 @ ascii ''\<newline>''"

definition text_period_line :: "period \<Rightarrow> pystr" where
  "text_period_line p =
     ascii ''  '' @ pd_time p @ ascii '' - '' @ pd_subject p @ ascii '': '' @
     pd_activity p @ ascii ''\<newline>''"

definition text_day_block :: "day_schedule \<Rightarrow> pystr" where
  "text_day_block d =
     ascii ''\<newline>'' @ ds_day d @ ascii '':\<newline>'' @
     concat (map text_period_line (ds_periods d))"

definition text_of :: "pystr \<Rightarrow> pystr \<Rightarrow> pystr \<Rightarrow> curriculum_record \<Rightarrow> pystr" where
  "text_of student grade date r =
     text_header student grade date (cr_overview r) @
     concat (map text_subject_block (cr_subjects r)) @
     ascii ''\<newline>WEEKLY SCHEDULE:\<newline>'' @
     concat (map text_day_block (cr_weeklySchedule r))"

text \<open>
  The data both renderers read from a decoded value, in the order in which they read it:
  the overview, then for each subject its name, weekly hours and four lists, then for
  each day its name and its periods. Every leaf is kept as the text Python prints for
  it; the weekly hours stay the number they are, and a value that is not a number is
  kept there by its printed text. Reading stops at the first access that raises, and
  \<open>collect\<close> reads the items of a list one after the other.
\<close>

fun collect :: "('a \<Rightarrow> 'e + 'b) \<Rightarrow> 'a list \<Rightarrow> 'e + 'b list" where
  "collect g [] = Inr []"
| "collect g (x # xs) =
     (case g x of
        Inl e \<Rightarrow> Inl e
      | Inr y \<Rightarrow> (case collect g xs of Inl e \<Rightarrow> Inl e | Inr ys \<Rightarrow> Inr (y # ys)))"

definition strings_at :: "platform \<Rightarrow> jvalue \<Rightarrow> pystr \<Rightarrow> py_exn + pystr list" where
  "strings_at P v k =
     and_then (and_then (getitem v k) iterate) (\<lambda>xs. Inr (map (py_str P) xs))"

definition hours_of :: "platform \<Rightarrow> jvalue \<Rightarrow> number" where
  "hours_of P v =
     (case v of JInt i \<Rightarrow> IntNumber i | JFloat r \<Rightarrow> FloatNumber r | _ \<Rightarrow> FloatNumber (py_str P v))"

definition subject_contents :: "platform \<Rightarrow> jvalue \<Rightarrow> py_exn + subject_plan" where
  "subject_contents P subject =
     and_then (getitem subject (ascii ''name'')) (\<lambda>nm.
     and_then (getitem subject (ascii ''weeklyHours'')) (\<lambda>hrs.
     and_then (strings_at P subject (ascii ''objectives'')) (\<lambda>objs.
     and_then (strings_at P subject (ascii ''activities'')) (\<lambda>acts.
     and_then (strings_at P subject (ascii ''assessments'')) (\<lambda>asss.
     and_then (strings_at P subject (ascii ''resources'')) (\<lambda>ress.
     Inr \<lparr>sp_name = py_str P nm, sp_objectives = objs, sp_weeklyHours = hours_of P hrs,
          sp_activities = acts, sp_assessments = asss, sp_resources = ress\<rparr>))))))"

definition period_contents :: "platform \<Rightarrow> jvalue \<Rightarrow> py_exn + period" where
  "period_contents P p =
     and_then (getitem p (ascii ''time'')) (\<lambda>t.
     and_then (getitem p (ascii ''subject'')) (\<lambda>s.
     and_then (getitem p (ascii ''activity'')) (\<lambda>a.
     Inr \<lparr>pd_time = py_str P t, pd_subject = py_str P s, pd_activity = py_str P a\<rparr>)))"

definition day_contents :: "platform \<Rightarrow> jvalue \<Rightarrow> py_exn + day_schedule" where
  "day_contents P dy =
     and_then (getitem dy (ascii ''day'')) (\<lambda>d.
     and_then (and_then (getitem dy (ascii ''periods'')) iterate) (\<lambda>ps.
     and_then (collect (period_contents P) ps) (\<lambda>pds.
     Inr \<lparr>ds_day = py_str P d, ds_periods = pds\<rparr>)))"

definition contents :: "platform \<Rightarrow> jvalue \<Rightarrow> py_exn + curriculum_record" where
  "contents P curriculum =
     and_then (getitem curriculum (ascii ''overview'')) (\<lambda>ov.
     and_then (and_then (getitem curriculum (ascii ''subjects'')) iterate) (\<lambda>subs.
     and_then (collect (subject_contents P) subs) (\<lambda>sps.
     and_then (and_then (getitem curriculum (ascii ''weeklySchedule'')) iterate) (\<lambda>dys.
     and_then (collect (day_contents P) dys) (\<lambda>dss.
     Inr \<lparr>cr_overview = py_str P ov, cr_subjects = sps, cr_weeklySchedule = dss\<rparr>)))))"

section \<open>Example inputs\<close>

text \<open>
  A JSON document (in two pieces, to put text between them), the value it decodes to, a
  model reply that wraps the document in a code fence, and a platform whose endpoint
  returns a given reply and that reads a given clock: one that stays on the same day, one
  that passes midnight between its first and its second reading. The decoder of the
  example knows this one document and rejects every other text.
\<close>

definition json_front :: pystr where
  \<open>json_front = ascii ''{"overview": "Third ''\<close>

definition json_rest :: pystr where
  \<open>json_rest =
     ascii ''grade basics", "subjects": [{"name": "Math", '' @
     ascii ''"objectives": ["Add", "Subtract"], "weeklyHours": 5, '' @
     ascii ''"activities": ["Blocks"], "assessments": ["Quiz"], '' @
     ascii ''"resources": ["Workbook"]}], "weeklySchedule": [{"day": "Monday", '' @
     ascii ''"periods": [{"time": "9:00-10:00", "subject": "Math", '' @
     ascii ''"activity": "Blocks"}]}]}''\<close>

definition example_json :: pystr where
  "example_json = json_front @ json_rest"

definition example_record :: curriculum_record where
  "example_record =
     \<lparr>cr_overview = ascii ''Third grade basics'',
      cr_subjects =
        [\<lparr>sp_name = ascii ''Math'',
          sp_objectives = [ascii ''Add'', ascii ''Subtract''],
          sp_weeklyHours = IntNumber 5,
          sp_activities = [ascii ''Blocks''],
          sp_assessments = [ascii ''Quiz''],
          sp_resources = [ascii ''Workbook'']\<rparr>],
      cr_weeklySchedule =
        [\<lparr>ds_day = ascii ''Monday'',
          ds_periods =
            [\<lparr>pd_time = ascii ''9:00-10:00'', pd_subject = ascii ''Math'',
              pd_activity = ascii ''Blocks''\<rparr>]\<rparr>]\<rparr>"

definition example_curriculum :: jvalue where
  "example_curriculum = record_json example_record"

definition example_loads :: "pystr \<Rightarrow> py_exn + jvalue" where
  "example_loads s =
     (if s = example_json then Inr example_curriculum
      else Inl (JSONDecodeError (ascii ''Expecting value: line 1 column 1 (char 0)'')))"

definition example_reply :: pystr where
  "example_reply = fence @ ascii ''json\<newline>'' @ example_json @ ascii ''\<newline>'' @ fence"

definition reply_json :: "pystr \<Rightarrow> jvalue" where
  "reply_json s =
     JObj [(ascii ''content'',
            JArr [JObj [(ascii ''type'', JStr (ascii ''text'')), (ascii ''text'', JStr s)]])]"

definition reply_with :: "pystr \<Rightarrow> response" where
  "reply_with s = \<lparr>raise_for_status = None, json_result = Inr (reply_json s)\<rparr>"

definition steady_clock :: "nat \<Rightarrow> datetime" where
  "steady_clock n =
     \<lparr>dt_year = 2025, dt_month = 6, dt_day = 15, dt_hour = 12, dt_minute = 0, dt_second = n\<rparr>"

definition midnight_clock :: "nat \<Rightarrow> datetime" where
  "midnight_clock n =
     (if n = 0
      then \<lparr>dt_year = 2025, dt_month = 12, dt_day = 31, dt_hour = 23, dt_minute = 59,
            dt_second = 59\<rparr>
      else \<lparr>dt_year = 2026, dt_month = 1, dt_day = 1, dt_hour = 0, dt_minute = 0,
            dt_second = n\<rparr>)"

definition example_platform :: "pystr \<Rightarrow> (nat \<Rightarrow> datetime) \<Rightarrow> platform" where
  "example_platform reply clock =
     \<lparr>post = (\<lambda>req. Inr (reply_with reply)), loads = example_loads, now = clock,
      repr = (\<lambda>v. [])\<rparr>"

definition example_generator :: generator where
  "example_generator = init (Some (ascii ''sk-test''))"

definition new_world :: world where
  "new_world = \<lparr>sent = [], clock_reads = 0\<rparr>"

section \<open>Properties\<close>

subsection \<open>Sequencing and loops\<close>

lemma and_then_Inr_iff:
  "and_then m f = Inr r \<longleftrightarrow> (\<exists>x. m = Inr x \<and> f x = Inr r)"
  by (cases m) (simp_all add: and_then_def)

lemma and_then_Inl_iff:
  "and_then m f = Inl e \<longleftrightarrow> m = Inl e \<or> (\<exists>x. m = Inr x \<and> f x = Inl e)"
  by (cases m) (simp_all add: and_then_def)

lemma prefix_numbered: "prefix out (numbered P i xs out)"
proof (induction xs arbitrary: i out)
  case Nil
  show ?case by simp
next
  case (Cons x xs)
  have "prefix out (out @ str_int i @ ascii ''. '' @ py_str P x @ ascii ''\<newline>'')"
    by simp
  also have "prefix \<dots> (numbered P (i + 1) xs (out @ str_int i @ ascii ''. '' @ py_str P x @ ascii ''\<newline>''))"
    by (rule Cons.IH)
  finally show ?case by simp
qed

lemma prefix_bullets: "prefix out (bullets P xs out)"
proof (induction xs arbitrary: out)
  case Nil
  show ?case by simp
next
  case (Cons x xs)
  have "prefix out (out @ ascii ''- '' @ py_str P x @ ascii ''\<newline>'')"
    by simp
  also have "prefix \<dots> (bullets P xs (out @ ascii ''- '' @ py_str P x @ ascii ''\<newline>''))"
    by (rule Cons.IH)
  finally show ?case by simp
qed

lemma prefix_numbered_app: "prefix a b \<Longrightarrow> prefix a (numbered P i xs (b @ x))"
  using prefix_numbered [of "b @ x" P i xs] by (meson append_prefixD prefix_order.trans)

lemma prefix_bullets_app: "prefix a b \<Longrightarrow> prefix a (bullets P xs (b @ x))"
  using prefix_bullets [of "b @ x" P xs] by (meson append_prefixD prefix_order.trans)

lemma prefix_for_each:
  assumes "\<And>acc x r. body acc x = Inr r \<Longrightarrow> prefix acc r"
  shows "for_each body xs acc = Inr r \<Longrightarrow> prefix acc r"
proof (induction xs arbitrary: acc)
  case Nil
  then show ?case by simp
next
  case (Cons x xs)
  then obtain acc' where b: "body acc x = Inr acc'" and f: "for_each body xs acc' = Inr r"
    by (auto split: sum.splits)
  from assms [OF b] Cons.IH [OF f] show ?case
    by (rule prefix_order.trans)
qed

lemma prefix_display_subject:
  assumes "display_subject P output subject = Inr r"
  shows "prefix output r"
proof -
  from assms obtain objs acts asss ress nm hrs where
    r: "r = bullets P ress (bullets P asss (bullets P acts (numbered P 1 objs
          (output @ ascii ''### '' @ py_str P nm @ ascii '' ('' @ py_str P hrs @
           ascii '' hrs/week)\<newline>\<newline>**Objectives:**\<newline>'') @
          ascii ''\<newline>**Activities:**\<newline>'') @
          ascii ''\<newline>**Assessments:**\<newline>'') @
          ascii ''\<newline>**Resources:**\<newline>'') @ ascii ''\<newline>---\<newline>\<newline>''"
    unfolding display_subject_def Let_def and_then_Inr_iff by auto
  show ?thesis
    unfolding r
    by (intro prefix_prefix prefix_bullets_app prefix_numbered_app prefix_order.refl)
qed


lemma prefix_display_period:
  "display_period P output period = Inr r \<Longrightarrow> prefix output r"
  unfolding display_period_def and_then_Inr_iff by auto

lemma prefix_display_day:
  assumes "display_day P output dy = Inr r"
  shows "prefix output r"
proof -
  from assms obtain d ps out' where
    f: "for_each (display_period P) ps (output @ ascii ''### '' @ py_str P d @ ascii ''\<newline>'') = Inr out'"
    and r: "r = out' @ ascii ''\<newline>''"
    unfolding display_day_def Let_def and_then_Inr_iff by auto
  have "prefix (output @ ascii ''### '' @ py_str P d @ ascii ''\<newline>'') out'"
    using f by (rule prefix_for_each [rotated]) (rule prefix_display_period)
  then show ?thesis
    unfolding r by (intro prefix_prefix) (rule append_prefixD)
qed

lemma format_curriculum_display_Inr:
  assumes "format_curriculum_display P c student_name grade_level w = (Inr d, w')"
  shows "\<exists>ov subs out1 dys.
           for_each (display_subject P) subs
             (display_header (or_else student_name (ascii ''Student'')) (str_int grade_level)
                (strftime_ymd (now P (clock_reads w))) (py_str P ov)) = Inr out1 \<and>
           for_each (display_day P) dys (out1 @ ascii ''## '' @ calendar @
              ascii '' Sample Weekly Schedule\<newline>\<newline>'') = Inr d"
  using assms
  by (auto simp: format_curriculum_display_def today_def Let_def and_then_Inr_iff)

lemma prefix_display_header: "prefix (ascii ''# '') (display_header student grade date ov)"
  by (simp add: display_header_def)

lemma display_starts_with_title:
  assumes "format_curriculum_display P c student_name grade_level w = (Inr d, w')"
  shows "prefix (ascii ''# '') d"
proof -
  from format_curriculum_display_Inr [OF assms] obtain hdr subs out1 dys where
    h: "prefix (ascii ''# '') hdr"
    and s: "for_each (display_subject P) subs hdr = Inr out1"
    and f: "for_each (display_day P) dys (out1 @ ascii ''## '' @ calendar @
              ascii '' Sample Weekly Schedule\<newline>\<newline>'') = Inr d"
    using prefix_display_header by blast
  have "prefix hdr out1"
    using s by (rule prefix_for_each [rotated]) (rule prefix_display_subject)
  moreover have "prefix (out1 @ ascii ''## '' @ calendar @ ascii '' Sample Weekly Schedule\<newline>\<newline>'') d"
    using f by (rule prefix_for_each [rotated]) (rule prefix_display_day)
  then have "prefix out1 d"
    by (rule append_prefixD)
  ultimately have "prefix hdr d"
    by (rule prefix_order.trans)
  with h show ?thesis
    by (rule prefix_order.trans)
qed

lemma cross_mark_handle_exn: "prefix cross_mark (handle_exn e)"
  by (cases e) (simp_all add: handle_exn_def)

lemma title_not_cross_mark: "prefix (ascii ''# '') d \<Longrightarrow> \<not> prefix cross_mark d"
  by (auto simp: prefix_def cross_mark_def)


lemma try_body_Inr_iff:
  "try_body P self prompt student_name grade_level w = (Inr (d, t), w') \<longleftrightarrow>
     (\<exists>resp result text cleaned curriculum_data w2.
        post P (build_request self prompt) = Inr resp \<and>
        raise_for_status resp = None \<and>
        json_result resp = Inr result \<and>
        response_text result = Inr text \<and>
        clean_text text = Inr cleaned \<and>
        loads P cleaned = Inr curriculum_data \<and>
        format_curriculum_display P curriculum_data student_name grade_level
          (w\<lparr>sent := sent w @ [build_request self prompt]\<rparr>) = (Inr d, w2) \<and>
        format_curriculum_text P curriculum_data student_name grade_level w2 = (Inr t, w'))"
  by (auto simp: try_body_def Let_def and_then_def
      split: sum.splits option.splits prod.splits)

subsection \<open>\<open>replace\<close> and \<open>strip\<close>\<close>

lemma replace_from_skip:
  assumes "old \<noteq> []" and "hd old \<notin> set s"
  shows "replace_from old new (s @ t) = s @ replace_from old new t"
  using assms
proof (induction s)
  case Nil
  show ?case by simp
next
  case (Cons c cs)
  from Cons.prems have "\<not> prefix old (c # cs @ t)"
    by (cases old) auto
  with Cons show ?case by simp
qed

lemma replace_from_unchanged:
  assumes "old \<noteq> []" and "hd old \<notin> set s"
  shows "replace_from old new s = s"
  using replace_from_skip [OF assms, of new "[]"] by simp

lemma replace_from_hit:
  assumes "old \<noteq> []"
  shows "replace_from old new (old @ t) = new @ replace_from old new t"
proof -
  from assms obtain c cs where old: "old = c # cs"
    by (cases old) auto
  have "replace_from old new (c # cs @ t) = new @ replace_from old new (drop (length old) (c # cs @ t))"
    using assms by (subst replace_from.simps) (simp add: old)
  then show ?thesis
    by (simp add: old)
qed

lemma isspace_not_fence: "isspace c \<Longrightarrow> c \<noteq> 96 \<and> c \<noteq> 106"
  by (auto simp: isspace_def)

lemma strip_padding:
  assumes "list_all isspace ws1" and "list_all isspace ws2"
    and "body \<noteq> [] \<longrightarrow> \<not> isspace (hd body) \<and> \<not> isspace (last body)"
  shows "strip (ws1 @ body @ ws2) = body"
proof (cases "body = []")
  case True
  with assms show ?thesis
    by (auto simp: strip_def list_all_iff dest: set_dropWhileD)
next
  case False
  with assms obtain b bs where body: "body = b # bs" and b: "\<not> isspace b"
    by (cases body) auto
  from assms False have l: "\<not> isspace (last body)"
    by simp
  have "dropWhile isspace (ws1 @ body @ ws2) = body @ ws2"
    using assms(1) b by (simp add: body dropWhile_append list_all_iff)
  moreover have "dropWhile isspace (rev ws2 @ rev body) = rev body"
  proof -
    obtain r rs where rb: "rev body = r # rs"
      using False by (cases "rev body") auto
    then have "r = last body"
      by (metis hd_rev list.sel(1))
    with l have "dropWhile isspace (rev body) = rev body"
      unfolding rb by simp
    moreover have "dropWhile isspace (rev ws2 @ rev body) = dropWhile isspace (rev body)"
      using assms(2) by (intro dropWhile_append2) (simp add: list_all_iff)
    ultimately show ?thesis
      by simp
  qed
  ultimately show ?thesis
    by (simp add: strip_def)
qed


lemma fence_tail: "replace_from (fence @ ascii ''json'') [] fence = fence"
  and fence_gone: "replace_from fence [] fence = []"
  by (simp_all add: fence_def)

lemma clean_up_json_fenced:
  assumes "96 \<notin> set body" and "list_all isspace ws1" and "list_all isspace ws2"
    and "body \<noteq> [] \<longrightarrow> \<not> isspace (hd body) \<and> \<not> isspace (last body)"
  shows "clean_up (fence @ ascii ''json'' @ ws1 @ body @ ws2 @ fence) = body"
proof -
  have nf: "96 \<notin> set (ws1 @ body @ ws2)"
    using assms(1-3) isspace_not_fence by (auto simp: list_all_iff)
  have h1: "hd (fence @ ascii ''json'') = 96" "fence @ ascii ''json'' \<noteq> []"
    and h2: "hd fence = 96" "fence \<noteq> []"
    by (simp_all add: fence_def)
  have "replace_from (fence @ ascii ''json'') [] ((fence @ ascii ''json'') @ (ws1 @ body @ ws2) @ fence)
      = (ws1 @ body @ ws2) @ fence"
    using nf by (simp only: replace_from_hit [OF h1(2)] replace_from_skip [OF h1(2)] h1(1)
        fence_tail append_Nil not_False_eq_True)
  moreover have "replace_from fence [] ((ws1 @ body @ ws2) @ fence) = ws1 @ body @ ws2"
    using nf by (simp only: replace_from_skip [OF h2(2)] h2(1) fence_gone append_Nil2
        not_False_eq_True)
  ultimately have "replace (replace (fence @ ascii ''json'' @ ws1 @ body @ ws2 @ fence)
      (fence @ ascii ''json'') []) fence [] = ws1 @ body @ ws2"
    using h1(2) h2(2) by (simp add: replace_def)
  then show ?thesis
    using assms by (simp add: clean_up_def strip_padding)
qed


lemma clean_up_unfenced:
  assumes "96 \<notin> set body" and "list_all isspace ws1" and "list_all isspace ws2"
    and "body \<noteq> [] \<longrightarrow> \<not> isspace (hd body) \<and> \<not> isspace (last body)"
  shows "clean_up (ws1 @ body @ ws2) = body"
proof -
  have nf: "96 \<notin> set (ws1 @ body @ ws2)"
    using assms(1-3) isspace_not_fence by (auto simp: list_all_iff)
  have "replace_from (fence @ ascii ''json'') [] (ws1 @ body @ ws2) = ws1 @ body @ ws2"
    using nf by (intro replace_from_unchanged) (simp_all add: fence_def)
  moreover have "replace_from fence [] (ws1 @ body @ ws2) = ws1 @ body @ ws2"
    using nf by (intro replace_from_unchanged) (simp_all add: fence_def)
  ultimately have "replace (replace (ws1 @ body @ ws2) (fence @ ascii ''json'') []) fence []
      = ws1 @ body @ ws2"
    by (simp add: replace_def fence_def)
  then show ?thesis
    using assms by (simp add: clean_up_def strip_padding)
qed

lemma clean_up_plain_fenced:
  assumes "96 \<notin> set body" and "list_all isspace ws1" and "list_all isspace ws2"
    and "body \<noteq> [] \<longrightarrow> \<not> isspace (hd body) \<and> \<not> isspace (last body)"
    and "ws1 \<noteq> []"
  shows "clean_up (fence @ ws1 @ body @ ws2 @ fence) = body"
proof -
  have nf: "96 \<notin> set (ws1 @ body @ ws2)"
    using assms(1-3) isspace_not_fence by (auto simp: list_all_iff)
  define s0 where "s0 = ws1 @ body @ ws2"
  from assms(2,5) obtain c cs where ws1: "ws1 = c # cs" and c: "c \<noteq> 96" "c \<noteq> 106"
    using isspace_not_fence by (cases ws1) auto
  then have s0: "s0 = c # cs @ body @ ws2"
    by (simp add: s0_def)
  have h1: "hd (fence @ ascii ''json'') = 96" "fence @ ascii ''json'' \<noteq> []"
    and h2: "hd fence = 96" "fence \<noteq> []"
    by (simp_all add: fence_def)
  have "replace_from (fence @ ascii ''json'') [] (fence @ s0 @ fence)
      = fence @ replace_from (fence @ ascii ''json'') [] (s0 @ fence)"
    using c by (simp add: fence_def s0)
  also have "replace_from (fence @ ascii ''json'') [] (s0 @ fence) = s0 @ fence"
    using nf unfolding s0_def [symmetric]
    by (simp only: replace_from_skip [OF h1(2)] h1(1) fence_tail not_False_eq_True)
  finally have "replace_from (fence @ ascii ''json'') [] (fence @ ws1 @ body @ ws2 @ fence)
      = fence @ (ws1 @ body @ ws2) @ fence"
    by (simp add: s0_def)
  moreover have "replace_from fence [] (fence @ (ws1 @ body @ ws2) @ fence) = ws1 @ body @ ws2"
    using nf by (simp only: replace_from_hit [OF h2(2)] replace_from_skip [OF h2(2)] h2(1)
        fence_gone append_Nil append_Nil2 not_False_eq_True)
  ultimately have "replace (replace (fence @ ws1 @ body @ ws2 @ fence)
      (fence @ ascii ''json'') []) fence [] = ws1 @ body @ ws2"
    using h1(2) h2(2) by (simp add: replace_def)
  then show ?thesis
    using assms by (simp add: clean_up_def strip_padding)
qed

subsection \<open>No fence is left\<close>

lemma run_of_three:
  "prefix [b, b, b] s \<Longrightarrow> 3 \<le> length (takeWhile (\<lambda>c. c = b) s)"
  by (auto simp: prefix_def)

lemma short_run:
  "\<not> prefix [b, b, b] (b # cs) \<Longrightarrow> length (takeWhile (\<lambda>c. c = b) cs) \<le> 1"
  by (cases cs; cases "tl cs") (auto split: if_splits)

lemma run_after_replace:
  "length (takeWhile (\<lambda>c. c = b) (replace_from [b, b, b] [] s)) =
     length (takeWhile (\<lambda>c. c = b) s) mod 3"
proof (induction "length s" arbitrary: s rule: less_induct)
  case less
  show ?case
  proof (cases s)
    case Nil
    then show ?thesis by simp
  next
    case (Cons c cs)
    show ?thesis
    proof (cases "prefix [b, b, b] s")
      case True
      then obtain t where s: "s = b # b # b # t"
        by (auto simp: prefix_def)
      have "length t < length s"
        by (simp add: s)
      from less [OF this] show ?thesis
        by (simp add: s)
    next
      case False
      show ?thesis
      proof (cases "c = b")
        case True
        with False Cons have "length (takeWhile (\<lambda>c. c = b) cs) \<le> 1"
          using short_run by simp
        moreover have "length (takeWhile (\<lambda>c. c = b) (replace_from [b, b, b] [] cs)) =
          length (takeWhile (\<lambda>c. c = b) cs) mod 3"
          using less [of cs] Cons by simp
        ultimately show ?thesis
          using False Cons True by simp
      next
        case c: False
        with False Cons show ?thesis by simp
      qed
    qed
  qed
qed

lemma no_run_after_replace: "\<not> sublist [b, b, b] (replace_from [b, b, b] [] s)"
proof (induction "length s" arbitrary: s rule: less_induct)
  case less
  show ?case
  proof (cases s)
    case Nil
    then show ?thesis by simp
  next
    case (Cons c cs)
    show ?thesis
    proof (cases "prefix [b, b, b] s")
      case True
      then obtain t where s: "s = b # b # b # t"
        by (auto simp: prefix_def)
      have "length t < length s"
        by (simp add: s)
      from less [OF this] show ?thesis
        by (simp add: s)
    next
      case False
      have r: "replace_from [b, b, b] [] s = c # replace_from [b, b, b] [] cs"
        using False Cons by auto
      have "\<not> sublist [b, b, b] (replace_from [b, b, b] [] cs)"
        using less [of cs] Cons by simp
      moreover have "\<not> prefix [b, b, b] (replace_from [b, b, b] [] s)"
      proof
        assume "prefix [b, b, b] (replace_from [b, b, b] [] s)"
        from run_of_three [OF this] show False
          unfolding run_after_replace by simp
      qed
      ultimately show ?thesis
        unfolding r by (simp add: sublist_Cons_right)
    qed
  qed
qed

lemma sublist_strip: "sublist (strip s) s"
proof -
  have "suffix (dropWhile isspace (rev (dropWhile isspace s))) (rev (dropWhile isspace s))"
    by (rule suffix_dropWhile)
  then have "prefix (strip s) (dropWhile isspace s)"
    by (simp add: strip_def suffix_to_prefix)
  then have "sublist (strip s) (dropWhile isspace s)"
    by (rule prefix_imp_sublist)
  moreover have "sublist (dropWhile isspace s) s"
    by (rule suffix_imp_sublist) (rule suffix_dropWhile)
  ultimately show ?thesis
    by (rule sublist_order.order.trans)
qed

lemma no_fence_left: "\<not> sublist fence (clean_up s)"
proof
  assume "sublist fence (clean_up s)"
  then have "sublist fence (replace (replace s (fence @ ascii ''json'') []) fence [])"
    unfolding clean_up_def using sublist_strip by (rule sublist_order.order.trans)
  then show False
    using no_run_after_replace [of 96] by (simp add: replace_def fence_def)
qed


lemma dropWhile_keeps_infix:
  assumes "ys \<noteq> []" and "\<not> P (hd ys)"
  shows "\<exists>ps'. dropWhile P (ps @ ys @ ss) = ps' @ ys @ ss"
proof (cases "\<forall>x\<in>set ps. P x")
  case True
  from assms obtain y ys' where ys: "ys = y # ys'" and "\<not> P y"
    by (cases ys) auto
  then have "dropWhile P (ys @ ss) = ys @ ss"
    by simp
  moreover have "dropWhile P (ps @ ys @ ss) = dropWhile P (ys @ ss)"
    using True by (intro dropWhile_append2) simp
  ultimately have "dropWhile P (ps @ ys @ ss) = [] @ ys @ ss"
    by simp
  then show ?thesis by blast
next
  case False
  then obtain x where "x \<in> set ps" and "\<not> P x"
    by blast
  then have "dropWhile P (ps @ ys @ ss) = dropWhile P ps @ ys @ ss"
    by (rule dropWhile_append1)
  then show ?thesis by blast
qed

lemma sublist_survives_strip:
  assumes "sublist ys s" and "ys \<noteq> []" and "\<not> isspace (hd ys)" and "\<not> isspace (last ys)"
  shows "sublist ys (strip s)"
proof -
  from assms(1) obtain ps ss where s: "s = ps @ ys @ ss"
    by (auto simp: sublist_def)
  from dropWhile_keeps_infix [of ys isspace ps ss] assms(2,3) obtain ps' where
    a: "dropWhile isspace (ps @ ys @ ss) = ps' @ ys @ ss"
    by blast
  have "rev ys \<noteq> []" and "\<not> isspace (hd (rev ys))"
    using assms(2,4) by (simp_all add: hd_rev)
  from dropWhile_keeps_infix [of "rev ys" isspace "rev ss" "rev ps'"] this obtain ss' where
    b: "dropWhile isspace (rev ss @ rev ys @ rev ps') = ss' @ rev ys @ rev ps'"
    by blast
  have "strip s = ps' @ ys @ rev ss'"
    by (simp add: strip_def s a b)
  then show ?thesis
    by simp
qed

lemma interior_fence_altered:
  assumes "sublist fence s"
  shows "clean_up s \<noteq> strip s"
proof
  assume "clean_up s = strip s"
  moreover have "sublist fence (strip s)"
    using assms by (rule sublist_survives_strip) (simp_all add: fence_def isspace_def)
  ultimately show False
    by (metis no_fence_left)
qed

lemma interior_fence_deleted:
  assumes "96 \<notin> set front" and "96 \<notin> set rest" and "\<not> prefix (ascii ''json'') rest"
  shows "clean_up (front @ fence @ rest) = strip (front @ rest)"
proof -
  have h1: "hd (fence @ ascii ''json'') = 96" "fence @ ascii ''json'' \<noteq> []"
    and h2: "hd fence = 96" "fence \<noteq> []"
    by (simp_all add: fence_def)
  have p: "replace_from (fence @ ascii ''json'') [] rest = rest"
    "replace_from fence [] rest = rest"
    using assms(2) h1 h2 by (simp_all add: replace_from_unchanged)
  have "replace_from (fence @ ascii ''json'') [] (fence @ rest) = fence @ rest"
    using assms(2,3) p(1) by (cases rest) (auto simp: fence_def)
  then have "replace_from (fence @ ascii ''json'') [] (front @ fence @ rest) = front @ fence @ rest"
    using assms(1) by (simp only: replace_from_skip [OF h1(2)] h1(1) not_False_eq_True)
  moreover have "replace_from fence [] (front @ fence @ rest) = front @ rest"
    using assms(1) p(2)
    by (simp only: replace_from_skip [OF h2(2)] replace_from_hit [OF h2(2)] h2(1) append_Nil
        not_False_eq_True)
  ultimately show ?thesis
    using h1(2) h2(2) by (simp add: clean_up_def replace_def)
qed

lemma interior_json_fence_deleted:
  assumes "96 \<notin> set front" and "96 \<notin> set rest"
  shows "clean_up (front @ fence @ ascii ''json'' @ rest) = strip (front @ rest)"
proof -
  have h1: "hd (fence @ ascii ''json'') = 96" "fence @ ascii ''json'' \<noteq> []"
    and h2: "hd fence = 96" "fence \<noteq> []"
    by (simp_all add: fence_def)
  have p: "replace_from (fence @ ascii ''json'') [] rest = rest"
    using assms(2) h1 by (simp add: replace_from_unchanged)
  have "replace_from (fence @ ascii ''json'') [] (front @ (fence @ ascii ''json'') @ rest) = front @ rest"
    using assms(1) p
    by (simp only: replace_from_skip [OF h1(2)] replace_from_hit [OF h1(2)] h1(1) append_Nil
        not_False_eq_True)
  moreover have "replace_from fence [] (front @ rest) = front @ rest"
    using assms h2 by (intro replace_from_unchanged) simp_all
  ultimately show ?thesis
    using h1(2) h2(2) by (simp add: clean_up_def replace_def)
qed


lemma generate_curriculum_decoded:
  assumes "subjects \<noteq> []" and "api_key self \<noteq> []"
    and "post P (build_request self (build_prompt student_name grade_level
           (join (ascii '', '') subjects) learning_style weeks days goals)) = Inr resp"
    and "raise_for_status resp = None" and "json_result resp = Inr result"
    and "response_text result = Inr (JStr raw)"
  shows "generate_curriculum P self student_name grade_level (Some subjects) learning_style
           weeks days goals w =
     (let w1 = w\<lparr>sent := sent w @ [build_request self (build_prompt student_name grade_level
                  (join (ascii '', '') subjects) learning_style weeks days goals)]\<rparr> in
      case loads P (clean_up raw) of
        Inl e \<Rightarrow> ((handle_exn e, None), w1)
      | Inr curriculum_data \<Rightarrow>
     (case format_curriculum_display P curriculum_data student_name grade_level w1 of
        (Inl e, w2) \<Rightarrow> ((handle_exn e, None), w2)
      | (Inr formatted_output, w2) \<Rightarrow>
     (case format_curriculum_text P curriculum_data student_name grade_level w2 of
        (Inl e, w3) \<Rightarrow> ((handle_exn e, None), w3)
      | (Inr download_text, w3) \<Rightarrow> ((formatted_output, Some download_text), w3))))"
  using assms
  by (simp add: generate_curriculum_def try_body_def Let_def and_then_def clean_text_def
      split: sum.splits prod.splits)

subsection \<open>Rendering a well-formed record\<close>

lemma numbered_strings:
  "numbered P (int n) (map JStr objs) out =
     out @ concat (map (\<lambda>(i, obj). str_int (int i) @ ascii ''. '' @ obj @ ascii ''\<newline>'')
             (enumerate n objs))"
proof (induction objs arbitrary: n out)
  case Nil
  show ?case by simp
next
  case (Cons obj objs)
  have "int n + 1 = int (Suc n)"
    by simp
  then show ?case
    by (simp only: list.map numbered.simps Cons.IH enumerate_simps) (simp add: py_str_def)
qed

lemma numbered_lines_loop: "numbered P 1 (map JStr objs) out = out @ numbered_lines objs"
  using numbered_strings [of P 1 objs out] by (simp add: numbered_lines_def)

lemma bullet_lines_loop: "bullets P (map JStr xs) out = out @ bullet_lines xs"
  by (induction xs arbitrary: out) (simp_all add: py_str_def bullet_lines_def)

lemma for_each_blocks:
  assumes "\<And>out x. body out (f x) = Inr (out @ g x)"
  shows "for_each body (map f xs) out = Inr (out @ concat (map g xs))"
  by (induction xs arbitrary: out) (simp_all add: assms)

lemma py_str_JStr: "py_str P (JStr s) = s"
  by (simp add: py_str_def)

lemma py_str_number: "py_str P (number_json n) = number_text n"
  by (cases n) (simp_all add: py_str_def)

lemma display_subject_json:
  "display_subject P out (subject_json s) = Inr (out @ display_subject_block s)"
  by (simp add: display_subject_def subject_json_def display_subject_block_def and_then_def
      Let_def numbered_lines_loop bullet_lines_loop py_str_number py_str_JStr)

lemma text_subject_json:
  "text_subject P out (subject_json s) = Inr (out @ text_subject_block s)"
  by (simp add: text_subject_def subject_json_def text_subject_block_def and_then_def
      Let_def numbered_lines_loop bullet_lines_loop py_str_number py_str_JStr)

lemma display_period_json:
  "display_period P out (period_json p) = Inr (out @ display_period_line p)"
  by (simp add: display_period_def period_json_def display_period_line_def and_then_def
      py_str_JStr)

lemma text_period_json:
  "text_period P out (period_json p) = Inr (out @ text_period_line p)"
  by (simp add: text_period_def period_json_def text_period_line_def and_then_def
      py_str_JStr)

lemma display_day_json:
  "display_day P out (day_json d) = Inr (out @ display_day_block d)"
  by (simp add: display_day_def day_json_def display_day_block_def and_then_def Let_def
      py_str_JStr for_each_blocks [of "display_period P", OF display_period_json])

lemma text_day_json:
  "text_day P out (day_json d) = Inr (out @ text_day_block d)"
  by (simp add: text_day_def day_json_def text_day_block_def and_then_def Let_def
      py_str_JStr for_each_blocks [of "text_period P", OF text_period_json])

lemma format_curriculum_display_record:
  "format_curriculum_display P (record_json r) student_name grade_level w =
     (Inr (display_of (or_else student_name (ascii ''Student'')) (str_int grade_level)
             (strftime_ymd (now P (clock_reads w))) r),
      w\<lparr>clock_reads := Suc (clock_reads w)\<rparr>)"
  by (simp add: format_curriculum_display_def today_def record_json_def and_then_def Let_def
      py_str_JStr display_of_def
      for_each_blocks [of "display_subject P", OF display_subject_json]
      for_each_blocks [of "display_day P", OF display_day_json])

lemma format_curriculum_text_record:
  "format_curriculum_text P (record_json r) student_name grade_level w =
     (Inr (text_of (or_else student_name (ascii ''Student'')) (str_int grade_level)
             (strftime_ymd (now P (clock_reads w))) r),
      w\<lparr>clock_reads := Suc (clock_reads w)\<rparr>)"
  by (simp add: format_curriculum_text_def today_def record_json_def and_then_def Let_def
      py_str_JStr text_of_def
      for_each_blocks [of "text_subject P", OF text_subject_json]
      for_each_blocks [of "text_day P", OF text_day_json])

subsection \<open>The two renderers raise alike\<close>

lemma raised_Inr: "raised (Inr x) = None"
  by (simp add: raised_def)

lemma raised_and_then_Inr: "raised (and_then m (\<lambda>x. Inr (h x))) = raised m"
  by (cases m) (simp_all add: raised_def and_then_def)

lemma raised_and_then_cong:
  assumes "raised m = raised m'"
    and "\<And>x y. m = Inr x \<Longrightarrow> m' = Inr y \<Longrightarrow> raised (f x) = raised (g y)"
  shows "raised (and_then m f) = raised (and_then m' g)"
  using assms by (cases m; cases m') (simp_all add: raised_def and_then_def)

lemma raised_and_then_same:
  assumes "\<And>x. m = Inr x \<Longrightarrow> raised (f x) = raised (g x)"
  shows "raised (and_then m f) = raised (and_then m g)"
  using assms by (cases m) (simp_all add: raised_def and_then_def)

lemma raised_for_each:
  assumes "\<And>a b x. raised (f a x) = raised (g b x)"
  shows "raised (for_each f xs a) = raised (for_each g xs b)"
proof (induction xs arbitrary: a b)
  case Nil
  show ?case by (simp add: raised_def)
next
  case (Cons x xs)
  show ?case
  proof (cases "f a x")
    case (Inl e)
    with assms [of a x b] have "g b x = Inl e"
      by (cases "g b x") (simp_all add: raised_def)
    with Inl show ?thesis by (simp add: raised_def)
  next
    case (Inr a')
    with assms [of a x b] obtain b' where "g b x = Inr b'"
      by (cases "g b x") (simp_all add: raised_def)
    with Inr Cons.IH [of a' b'] show ?thesis by simp
  qed
qed

lemma raised_subject: "raised (display_subject P a s) = raised (text_subject P b s)"
  unfolding display_subject_def text_subject_def Let_def
  by (intro raised_and_then_same) (simp add: raised_Inr)

lemma raised_period: "raised (display_period P a p) = raised (text_period P b p)"
  unfolding display_period_def text_period_def
  by (intro raised_and_then_same) (simp add: raised_Inr)

lemma raised_day: "raised (display_day P a d) = raised (text_day P b d)"
proof -
  have "raised (and_then (for_each (display_period P) ps a') (\<lambda>out. Inr (out @ t))) =
    raised (for_each (text_period P) ps b')" for ps a' b' t
    unfolding raised_and_then_Inr by (rule raised_for_each) (rule raised_period)
  then show ?thesis
    unfolding display_day_def text_day_def Let_def
    by (intro raised_and_then_same)
qed

lemma raised_renderers:
  "raised (fst (format_curriculum_display P c student_name grade_level w)) =
   raised (fst (format_curriculum_text P c student_name grade_level w'))"
proof -
  have "raised (and_then (getitem c (ascii ''overview'')) (\<lambda>ov.
       and_then (and_then (getitem c (ascii ''subjects'')) iterate) (\<lambda>subs.
       and_then (for_each (display_subject P) subs (h1 ov)) (\<lambda>out.
       and_then (and_then (getitem c (ascii ''weeklySchedule'')) iterate) (\<lambda>dys.
       for_each (display_day P) dys (k1 out)))))) =
     raised (and_then (getitem c (ascii ''overview'')) (\<lambda>ov.
       and_then (and_then (getitem c (ascii ''subjects'')) iterate) (\<lambda>subs.
       and_then (for_each (text_subject P) subs (h2 ov)) (\<lambda>out.
       and_then (and_then (getitem c (ascii ''weeklySchedule'')) iterate) (\<lambda>dys.
       for_each (text_day P) dys (k2 out))))))" for h1 h2 k1 k2
    by (intro raised_and_then_same raised_and_then_cong raised_for_each raised_subject
        raised_day)
  then show ?thesis
    by (simp add: format_curriculum_display_def format_curriculum_text_def today_def Let_def)
qed

subsection \<open>The prompt and the request\<close>

lemma sublist_skip: "sublist xs ys \<Longrightarrow> sublist xs (zs @ ys)"
  by (auto simp: sublist_def) (metis append.assoc)

lemma join_Cons: "join sep (x # xs) = x @ concat (map (\<lambda>y. sep @ y) xs)"
  by (induction xs arbitrary: x) simp_all

lemma renderers_keep_sent:
  "sent (snd (format_curriculum_display P c student_name grade_level w)) = sent w"
  "sent (snd (format_curriculum_text P c student_name grade_level w)) = sent w"
  by (simp_all add: format_curriculum_display_def format_curriculum_text_def today_def)

lemma try_body_sent:
  "sent (snd (try_body P self prompt student_name grade_level w)) =
     sent w @ [build_request self prompt]"
proof -
  have "sent w2 = sent w1"
    if "format_curriculum_display P c student_name grade_level w1 = (r, w2)" for c w1 w2 r
    using renderers_keep_sent(1) [of P c student_name grade_level w1] that by simp
  moreover have "sent w2 = sent w1"
    if "format_curriculum_text P c student_name grade_level w1 = (r, w2)" for c w1 w2 r
    using renderers_keep_sent(2) [of P c student_name grade_level w1] that by simp
  ultimately show ?thesis
    by (auto simp: try_body_def Let_def split: sum.splits option.splits prod.splits)
qed

lemma prompt_subjects:
  "sublist (ascii ''\<newline>Subjects to cover: '' @ subjects_str @ ascii ''\<newline>Learning style: '')
     (build_prompt student_name grade_level subjects_str learning_style weeks days goals)"
  unfolding build_prompt_def
  apply (rule sublist_skip)
  apply (rule sublist_skip)
  apply (rule sublist_skip)
  apply (rule sublist_skip)
  apply (rule sublist_skip)
  apply (rule sublist_skip)
  apply (rule prefix_imp_sublist)
  apply simp
  done


lemma prompt_goals_given:
  assumes "truthy goals"
  shows "sublist (ascii '' days per week\<newline>Learning goals: '' @ the goals @
            ascii ''\<newline>\<newline>Please provide:\<newline>'')
     (build_prompt student_name grade_level subjects_str learning_style weeks days goals)"
  unfolding build_prompt_def
  apply (rule sublist_skip)
  apply (rule sublist_skip)
  apply (rule sublist_skip)
  apply (rule sublist_skip)
  apply (rule sublist_skip)
  apply (rule sublist_skip)
  apply (rule sublist_skip)
  apply (rule sublist_skip)
  apply (rule sublist_skip)
  apply (rule sublist_skip)
  apply (rule sublist_skip)
  apply (rule sublist_skip)
  apply (rule sublist_skip)
  apply (rule sublist_skip)
  apply (rule sublist_skip)
  apply (rule sublist_skip)
  apply (rule sublist_skip)
  apply (rule prefix_imp_sublist)
  apply (simp add: goals_line_def assms)
  done

lemma prompt_no_goals:
  assumes "\<not> truthy goals"
  shows "sublist (ascii '' days per week\<newline>\<newline>\<newline>Please provide:\<newline>'')
     (build_prompt student_name grade_level subjects_str learning_style weeks days goals)"
  unfolding build_prompt_def
  apply (rule sublist_skip)
  apply (rule sublist_skip)
  apply (rule sublist_skip)
  apply (rule sublist_skip)
  apply (rule sublist_skip)
  apply (rule sublist_skip)
  apply (rule sublist_skip)
  apply (rule sublist_skip)
  apply (rule sublist_skip)
  apply (rule sublist_skip)
  apply (rule sublist_skip)
  apply (rule sublist_skip)
  apply (rule sublist_skip)
  apply (rule sublist_skip)
  apply (rule sublist_skip)
  apply (rule sublist_skip)
  apply (rule sublist_skip)
  apply (rule prefix_imp_sublist)
  apply (simp add: goals_line_def assms)
  done

lemma prompt_goals_iff:
  "build_prompt student_name grade_level subjects_str learning_style weeks days goals =
   build_prompt student_name grade_level subjects_str learning_style weeks days None
     \<longleftrightarrow> \<not> truthy goals"
  by (simp add: build_prompt_def goals_line_def truthy_def)

lemma prompt_name:
  "sublist (ascii '' grade student named '' @ or_else student_name (ascii ''Student'') @
            ascii ''.\<newline>\<newline>Subjects to cover: '')
     (build_prompt student_name grade_level subjects_str learning_style weeks days goals)"
  unfolding build_prompt_def
  apply (rule sublist_skip)
  apply (rule sublist_skip)
  apply (rule sublist_skip)
  apply (rule prefix_imp_sublist)
  apply simp
  done

subsection \<open>The data the renderers read, and the steps of a call\<close>

lemma for_each_collect:
  assumes "\<And>out x. body out x = and_then (g x) (\<lambda>y. Inr (out @ h y))"
  shows "for_each body xs out = and_then (collect g xs) (\<lambda>ys. Inr (out @ concat (map h ys)))"
proof (induction xs arbitrary: out)
  case Nil
  show ?case by (simp add: and_then_def)
next
  case (Cons x xs)
  show ?case
  proof (cases "g x")
    case (Inl e)
    then have "body out x = Inl e"
      by (simp only: assms [of out x]) (simp add: and_then_def)
    with Inl show ?thesis
      by (simp add: and_then_def)
  next
    case (Inr y)
    then have "body out x = Inr (out @ h y)"
      by (simp only: assms [of out x]) (simp add: and_then_def)
    with Inr Cons.IH [of "out @ h y"] show ?thesis
      by (cases "collect g xs") (simp_all add: and_then_def)
  qed
qed

lemma numbered_printed:
  "numbered P (int n) objs out =
     out @ concat (map (\<lambda>(i, obj). str_int (int i) @ ascii ''. '' @ obj @ ascii ''\<newline>'')
             (enumerate n (map (py_str P) objs)))"
proof (induction objs arbitrary: n out)
  case Nil
  show ?case by simp
next
  case (Cons obj objs)
  have "int n + 1 = int (Suc n)"
    by simp
  then show ?case
    by (simp only: list.map numbered.simps Cons.IH enumerate_simps) simp
qed

lemma numbered_lines_printed: "numbered P 1 objs out = out @ numbered_lines (map (py_str P) objs)"
  using numbered_printed [of P 1 objs out] by (simp add: numbered_lines_def)

lemma bullet_lines_printed: "bullets P xs out = out @ bullet_lines (map (py_str P) xs)"
  by (induction xs arbitrary: out) (simp_all add: bullet_lines_def)

lemma number_text_hours: "number_text (hours_of P v) = py_str P v"
  by (cases v) (simp_all add: hours_of_def py_str_def)

lemma and_then_Inr: "and_then (Inr x) f = f x"
  by (simp add: and_then_def)

lemma and_then_assoc: "and_then (and_then m f) g = and_then m (\<lambda>x. and_then (f x) g)"
  by (cases m) (simp_all add: and_then_def)

lemma display_subject_contents:
  "display_subject P out s =
     and_then (subject_contents P s) (\<lambda>x. Inr (out @ display_subject_block x))"
  by (simp add: display_subject_def subject_contents_def strings_at_def Let_def
      and_then_assoc and_then_Inr display_subject_block_def numbered_lines_printed
      bullet_lines_printed number_text_hours)

lemma text_subject_contents:
  "text_subject P out s =
     and_then (subject_contents P s) (\<lambda>x. Inr (out @ text_subject_block x))"
  by (simp add: text_subject_def subject_contents_def strings_at_def Let_def
      and_then_assoc and_then_Inr text_subject_block_def numbered_lines_printed
      bullet_lines_printed number_text_hours)

lemma display_period_contents:
  "display_period P out p =
     and_then (period_contents P p) (\<lambda>x. Inr (out @ display_period_line x))"
  by (simp add: display_period_def period_contents_def and_then_assoc and_then_Inr
      display_period_line_def)

lemma text_period_contents:
  "text_period P out p =
     and_then (period_contents P p) (\<lambda>x. Inr (out @ text_period_line x))"
  by (simp add: text_period_def period_contents_def and_then_assoc and_then_Inr
      text_period_line_def)

lemma display_day_contents:
  "display_day P out d =
     and_then (day_contents P d) (\<lambda>x. Inr (out @ display_day_block x))"
  by (simp add: display_day_def day_contents_def Let_def display_day_block_def
      for_each_collect [of "display_period P", OF display_period_contents]
      and_then_assoc and_then_Inr)

lemma text_day_contents:
  "text_day P out d =
     and_then (day_contents P d) (\<lambda>x. Inr (out @ text_day_block x))"
  by (simp add: text_day_def day_contents_def Let_def text_day_block_def
      for_each_collect [of "text_period P", OF text_period_contents]
      and_then_assoc and_then_Inr)

lemma format_curriculum_display_contents:
  "format_curriculum_display P c student_name grade_level w =
     (and_then (contents P c) (\<lambda>r.
        Inr (display_of (or_else student_name (ascii ''Student'')) (str_int grade_level)
               (strftime_ymd (now P (clock_reads w))) r)),
      w\<lparr>clock_reads := Suc (clock_reads w)\<rparr>)"
  by (simp add: format_curriculum_display_def today_def contents_def Let_def display_of_def
      for_each_collect [of "display_subject P", OF display_subject_contents]
      for_each_collect [of "display_day P", OF display_day_contents]
      and_then_assoc and_then_Inr)

lemma format_curriculum_text_contents:
  "format_curriculum_text P c student_name grade_level w =
     (and_then (contents P c) (\<lambda>r.
        Inr (text_of (or_else student_name (ascii ''Student'')) (str_int grade_level)
               (strftime_ymd (now P (clock_reads w))) r)),
      w\<lparr>clock_reads := Suc (clock_reads w)\<rparr>)"
  by (simp add: format_curriculum_text_def today_def contents_def Let_def text_of_def
      for_each_collect [of "text_subject P", OF text_subject_contents]
      for_each_collect [of "text_day P", OF text_day_contents]
      and_then_assoc and_then_Inr)

lemma collect_map:
  assumes "\<And>x. g (f x) = Inr x"
  shows "collect g (map f xs) = Inr xs"
  by (induction xs) (simp_all add: assms)

lemma hours_of_number: "hours_of P (number_json n) = n"
  by (cases n) (simp_all add: hours_of_def)

lemma contents_record: "contents P (record_json r) = Inr r"
proof -
  have s: "subject_contents P (subject_json x) = Inr x" for x
    by (simp add: subject_contents_def subject_json_def strings_at_def and_then_def
        hours_of_number py_str_JStr comp_def)
  have p: "period_contents P (period_json x) = Inr x" for x
    by (simp add: period_contents_def period_json_def and_then_def py_str_JStr)
  have d: "day_contents P (day_json x) = Inr x" for x
    by (simp add: day_contents_def day_json_def and_then_def py_str_JStr
        collect_map [of "period_contents P" period_json, OF p])
  show ?thesis
    by (simp add: contents_def record_json_def and_then_def py_str_JStr
        collect_map [of "subject_contents P" subject_json, OF s]
        collect_map [of "day_contents P" day_json, OF d])
qed


lemma generate_curriculum_steps:
  assumes "subjects \<noteq> []" and "api_key self \<noteq> []"
  shows "generate_curriculum P self student_name grade_level (Some subjects) learning_style
           weeks_per_year days_per_week goals w =
     (let req = build_request self (build_prompt student_name grade_level
                  (join (ascii '', '') subjects) learning_style weeks_per_year days_per_week
                  goals);
          w1 = w\<lparr>sent := sent w @ [req]\<rparr> in
      case post P req of
        Inl e \<Rightarrow> ((handle_exn e, None), w1)
      | Inr resp \<Rightarrow>
     (case raise_for_status resp of
        Some e \<Rightarrow> ((handle_exn e, None), w1)
      | None \<Rightarrow>
     (case and_then (json_result resp) (\<lambda>result.
           and_then (response_text result) (\<lambda>raw.
           and_then (clean_text raw) (loads P))) of
        Inl e \<Rightarrow> ((handle_exn e, None), w1)
      | Inr curriculum_data \<Rightarrow>
     (case format_curriculum_display P curriculum_data student_name grade_level w1 of
        (Inl e, w2) \<Rightarrow> ((handle_exn e, None), w2)
      | (Inr formatted_output, w2) \<Rightarrow>
     (case format_curriculum_text P curriculum_data student_name grade_level w2 of
        (Inl e, w3) \<Rightarrow> ((handle_exn e, None), w3)
      | (Inr download_text, w3) \<Rightarrow> ((formatted_output, Some download_text), w3))))))"
  using assms
  by (simp add: generate_curriculum_def try_body_def Let_def
      split: sum.splits option.splits prod.splits)

lemma text_returns_when_display_does:
  assumes "format_curriculum_display P c student_name grade_level w1 = (Inr d, w2)"
  shows "\<exists>t w3. format_curriculum_text P c student_name grade_level w2 = (Inr t, w3)"
proof -
  have "raised (fst (format_curriculum_text P c student_name grade_level w2)) = None"
    using raised_renderers [of P c student_name grade_level w1 w2] assms
    by (simp add: raised_def)
  then show ?thesis
    by (cases "format_curriculum_text P c student_name grade_level w2";
        cases "fst (format_curriculum_text P c student_name grade_level w2)")
      (simp_all add: raised_def)
qed


lemma try_block_cases:
  assumes "subjects \<noteq> []" and "api_key self \<noteq> []"
    and "req = build_request self (build_prompt student_name grade_level
           (join (ascii '', '') subjects) learning_style weeks_per_year days_per_week goals)"
    and "w1 = w\<lparr>sent := sent w @ [req]\<rparr>"
    and "call = generate_curriculum P self student_name grade_level (Some subjects)
           learning_style weeks_per_year days_per_week goals w"
    and "decoded = (\<lambda>resp. and_then (json_result resp) (\<lambda>result.
           and_then (response_text result) (\<lambda>raw. and_then (clean_text raw) (loads P))))"
  shows "post P req = Inl e \<Longrightarrow> call = ((handle_exn e, None), w1)"
    and "post P req = Inr resp \<Longrightarrow> raise_for_status resp = Some e \<Longrightarrow>
           call = ((handle_exn e, None), w1)"
    and "post P req = Inr resp \<Longrightarrow> raise_for_status resp = None \<Longrightarrow>
           decoded resp = Inl e \<Longrightarrow> call = ((handle_exn e, None), w1)"
    and "post P req = Inr resp \<Longrightarrow> raise_for_status resp = None \<Longrightarrow>
           decoded resp = Inr curriculum_data \<Longrightarrow>
           format_curriculum_display P curriculum_data student_name grade_level w1 = (Inl e, w2)
           \<Longrightarrow> call = ((handle_exn e, None), w2)"
    and "post P req = Inr resp \<Longrightarrow> raise_for_status resp = None \<Longrightarrow>
           decoded resp = Inr curriculum_data \<Longrightarrow>
           format_curriculum_display P curriculum_data student_name grade_level w1 = (Inr d, w2)
           \<Longrightarrow> format_curriculum_text P curriculum_data student_name grade_level w2 = (Inr t, w3)
           \<Longrightarrow> call = ((d, Some t), w3)"
  unfolding assms(3-6) generate_curriculum_steps [OF assms(1,2)] Let_def
  by simp_all


lemma two_part_shape:
  "case generate_curriculum P self student_name grade_level selected_subjects learning_style
          weeks_per_year days_per_week goals w of
     ((msg, artifact), w') \<Rightarrow>
       msg \<noteq> [] \<and>
       (artifact = None \<longleftrightarrow> prefix cross_mark msg) \<and>
       (artifact = None \<longleftrightarrow>
          msg = no_subjects_message \<or> msg = no_key_message \<or> (\<exists>e. msg = handle_exn e))"
proof -
  have m: "no_subjects_message \<noteq> []" "prefix cross_mark no_subjects_message"
    "no_key_message \<noteq> []" "prefix cross_mark no_key_message"
    by (simp_all add: no_subjects_message_def no_key_message_def cross_mark_def)
  have h: "handle_exn e \<noteq> []" "prefix cross_mark (handle_exn e)" for e
    using cross_mark_handle_exn [of e] by (auto simp: cross_mark_def)
  have r: "d \<noteq> [] \<and> \<not> prefix cross_mark d \<and> d \<noteq> no_subjects_message \<and>
      d \<noteq> no_key_message \<and> (\<forall>e. d \<noteq> handle_exn e)"
    if "format_curriculum_display P c student_name grade_level w1 = (Inr d, w2)" for c w1 d w2
  proof -
    from that have "prefix (ascii ''# '') d"
      by (rule display_starts_with_title)
    then have "d \<noteq> []" and nc: "\<not> prefix cross_mark d"
      using title_not_cross_mark by auto
    with m h show ?thesis
      by metis
  qed
  show ?thesis
  proof (cases "\<exists>subjects. selected_subjects = Some subjects \<and> subjects \<noteq> [] \<and> api_key self \<noteq> []")
    case False
    with m show ?thesis
      by (cases selected_subjects) (auto simp: generate_curriculum_def)
  next
    case True
    then obtain subjects where sel: "selected_subjects = Some subjects"
      and ne: "subjects \<noteq> []" and key: "api_key self \<noteq> []"
      by blast
    show ?thesis
      unfolding sel generate_curriculum_steps [OF ne key] Let_def
      using h r by (auto split: sum.splits option.splits prod.splits)
  qed
qed

subsection \<open>The example inputs\<close>

lemma example_json_plain:
  "96 \<notin> set example_json" "example_json \<noteq> []" "\<not> isspace (hd example_json)"
  "\<not> isspace (last example_json)"
  by (simp_all add: example_json_def json_front_def json_rest_def isspace_def)

lemma example_reply_text:
  "post (example_platform s clock) req = Inr (reply_with s)"
  "raise_for_status (reply_with s) = None"
  "json_result (reply_with s) = Inr (reply_json s)"
  "response_text (reply_json s) = Inr (JStr s)"
  "loads (example_platform s clock) = example_loads"
  "now (example_platform s clock) = clock"
  "api_key example_generator \<noteq> []"
  by (simp_all add: example_platform_def reply_with_def reply_json_def response_text_def
      and_then_def example_generator_def init_def)

lemma example_dates:
  "strftime_ymd (steady_clock n) = ascii ''2025-06-15''"
  "strftime_ymd (midnight_clock 0) = ascii ''2025-12-31''"
  "strftime_ymd (midnight_clock (Suc n)) = ascii ''2026-01-01''"
  by (simp_all add: strftime_ymd_def zero_pad_def str_nat.simps steady_clock_def
      midnight_clock_def)

subsection \<open>The grade suffix\<close>

text \<open>
  C1. For every grade integer, the suffix is "st" for 1, "nd" for 2, "rd" for 3 and "th"
  for every other grade; 11, 12 and 13 are not special-cased and get "th".
\<close>

theorem get_grade_suffix_rule:
  "get_grade_suffix 1 = ascii ''st'' \<and>
   get_grade_suffix 2 = ascii ''nd'' \<and>
   get_grade_suffix 3 = ascii ''rd'' \<and>
   (g \<notin> {1, 2, 3} \<longleftrightarrow> get_grade_suffix g = ascii ''th'') \<and>
   get_grade_suffix 11 = ascii ''th'' \<and>
   get_grade_suffix 12 = ascii ''th'' \<and>
   get_grade_suffix 13 = ascii ''th''"
  by (simp add: get_grade_suffix_def)

subsection \<open>Validation and configuration\<close>

text \<open>
  C2. With an empty or absent subjects selection, \<open>generate_curriculum\<close> returns the
  validation message with no secondary artifact, and the world is as before the call: no
  request has been sent.
\<close>

theorem no_subjects_no_call:
  "generate_curriculum P self student_name grade_level None learning_style weeks days goals w =
     ((no_subjects_message, None), w) \<and>
   generate_curriculum P self student_name grade_level (Some []) learning_style weeks days goals w =
     ((no_subjects_message, None), w)"
  by (simp add: generate_curriculum_def)

text \<open>
  C3. With a non-empty subjects selection and an empty credential,
  \<open>generate_curriculum\<close> returns the configuration message with no secondary artifact,
  and the world is as before the call: no request has been sent.
\<close>

theorem no_key_no_call:
  assumes "subjects \<noteq> []" and "api_key self = []"
  shows "generate_curriculum P self student_name grade_level (Some subjects) learning_style
           weeks days goals w = ((no_key_message, None), w)"
  using assms by (simp add: generate_curriculum_def)

theorem no_key_no_call_witness:
  "[ascii ''Math'', ascii ''Science''] \<noteq> [] \<and> api_key (init None) = [] \<and>
   generate_curriculum (example_platform example_reply steady_clock) (init None) (Some (ascii ''Alex'')) 3
     (Some [ascii ''Math'', ascii ''Science'']) (ascii ''visual'') 36 5 None new_world =
     ((no_key_message, None), new_world)"
  using no_key_no_call [of "[ascii ''Math'', ascii ''Science'']" "init None"
      "example_platform example_reply steady_clock" "Some (ascii ''Alex'')" 3 "ascii ''visual''"
      36 5 None
      new_world]
  by (simp add: init_def)

text \<open>
  C10. The subjects are checked before the credential: with an empty or absent subjects
  selection and an empty credential, the message is the validation message, which is not
  the configuration message.
\<close>

theorem subjects_checked_first:
  "generate_curriculum P (self\<lparr>api_key := []\<rparr>) student_name grade_level None learning_style
     weeks days goals w = ((no_subjects_message, None), w) \<and>
   generate_curriculum P (self\<lparr>api_key := []\<rparr>) student_name grade_level (Some [])
     learning_style weeks days goals w = ((no_subjects_message, None), w) \<and>
   no_subjects_message \<noteq> no_key_message"
  by (simp add: generate_curriculum_def no_subjects_message_def no_key_message_def cross_mark_def)

subsection \<open>The two-part result\<close>

text \<open>
  C6. Every call of \<open>generate_curriculum\<close> returns a message and an optional artifact.
  The message is never empty, and the artifact is \<open>None\<close> exactly when the message is
  an error message (it starts with the cross mark, and is the validation message, the
  configuration message or the report of an exception). Which of the two it is, is
  decided by the inputs alone:
  \<^item> without subjects, the validation message and no artifact;
  \<^item> without a credential, the configuration message and no artifact;
  \<^item> when \<open>requests.post\<close> raises, when the status is an error, when the reply cannot
    be read, cleaned or decoded, or when the display renderer raises on the decoded
    value: the report of that exception and no artifact, nothing of a rendering;
  \<^item> when the display renderer returns, the plain-text renderer returns too, and the
    call returns both renderings: the display as the message, the plain text as the
    artifact.
\<close>

theorem two_part_result:
  "(case generate_curriculum P self student_name grade_level selected_subjects learning_style
           weeks_per_year days_per_week goals w of
      ((msg, artifact), w') \<Rightarrow>
        msg \<noteq> [] \<and>
        (artifact = None \<longleftrightarrow> prefix cross_mark msg) \<and>
        (artifact = None \<longleftrightarrow>
           msg = no_subjects_message \<or> msg = no_key_message \<or> (\<exists>e. msg = handle_exn e))) \<and>
   generate_curriculum P self student_name grade_level None learning_style weeks_per_year
     days_per_week goals w = ((no_subjects_message, None), w) \<and>
   generate_curriculum P self student_name grade_level (Some []) learning_style
     weeks_per_year days_per_week goals w = ((no_subjects_message, None), w) \<and>
   (subjects \<noteq> [] \<longrightarrow>
     (let req = build_request self (build_prompt student_name grade_level
                  (join (ascii '', '') subjects) learning_style weeks_per_year days_per_week
                  goals);
          w1 = w\<lparr>sent := sent w @ [req]\<rparr>;
          decoded = (\<lambda>resp. and_then (json_result resp) (\<lambda>result.
                       and_then (response_text result) (\<lambda>raw.
                       and_then (clean_text raw) (loads P))));
          call = generate_curriculum P self student_name grade_level (Some subjects)
                   learning_style weeks_per_year days_per_week goals w
      in (api_key self = [] \<longrightarrow> call = ((no_key_message, None), w)) \<and>
         (api_key self \<noteq> [] \<longrightarrow>
            (\<forall>e. post P req = Inl e \<longrightarrow> call = ((handle_exn e, None), w1)) \<and>
            (\<forall>resp e. post P req = Inr resp \<and> raise_for_status resp = Some e \<longrightarrow>
               call = ((handle_exn e, None), w1)) \<and>
            (\<forall>resp e. post P req = Inr resp \<and> raise_for_status resp = None \<and>
               decoded resp = Inl e \<longrightarrow> call = ((handle_exn e, None), w1)) \<and>
            (\<forall>resp curriculum_data e w2.
               post P req = Inr resp \<and> raise_for_status resp = None \<and>
               decoded resp = Inr curriculum_data \<and>
               format_curriculum_display P curriculum_data student_name grade_level w1 =
                 (Inl e, w2) \<longrightarrow>
               call = ((handle_exn e, None), w2)) \<and>
            (\<forall>resp curriculum_data d w2.
               post P req = Inr resp \<and> raise_for_status resp = None \<and>
               decoded resp = Inr curriculum_data \<and>
               format_curriculum_display P curriculum_data student_name grade_level w1 =
                 (Inr d, w2) \<longrightarrow>
               (\<exists>t w3. format_curriculum_text P curriculum_data student_name grade_level w2 =
                   (Inr t, w3) \<and> call = ((d, Some t), w3))) \<and>
            (\<forall>resp curriculum_data d w2 t w3.
               post P req = Inr resp \<and> raise_for_status resp = None \<and>
               decoded resp = Inr curriculum_data \<and>
               format_curriculum_display P curriculum_data student_name grade_level w1 =
                 (Inr d, w2) \<and>
               format_curriculum_text P curriculum_data student_name grade_level w2 =
                 (Inr t, w3) \<longrightarrow>
               call = ((d, Some t), w3)))))"
proof (intro conjI impI)
  show "case generate_curriculum P self student_name grade_level selected_subjects
           learning_style weeks_per_year days_per_week goals w of
      ((msg, artifact), w') \<Rightarrow>
        msg \<noteq> [] \<and>
        (artifact = None \<longleftrightarrow> prefix cross_mark msg) \<and>
        (artifact = None \<longleftrightarrow>
           msg = no_subjects_message \<or> msg = no_key_message \<or> (\<exists>e. msg = handle_exn e))"
    by (rule two_part_shape)
  show "generate_curriculum P self student_name grade_level None learning_style weeks_per_year
     days_per_week goals w = ((no_subjects_message, None), w)"
    by (simp add: generate_curriculum_def)
  show "generate_curriculum P self student_name grade_level (Some []) learning_style
     weeks_per_year days_per_week goals w = ((no_subjects_message, None), w)"
    by (simp add: generate_curriculum_def)
next
  assume ne: "subjects \<noteq> []"
  define req where "req = build_request self (build_prompt student_name grade_level
    (join (ascii '', '') subjects) learning_style weeks_per_year days_per_week goals)"
  define w1 where "w1 = w\<lparr>sent := sent w @ [req]\<rparr>"
  define decoded where "decoded = (\<lambda>resp :: response. and_then (json_result resp) (\<lambda>result.
    and_then (response_text result) (\<lambda>raw. and_then (clean_text raw) (loads P))))"
  define call where "call = generate_curriculum P self student_name grade_level (Some subjects)
    learning_style weeks_per_year days_per_week goals w"
  have k: "call = ((no_key_message, None), w)" if "api_key self = []"
    using ne that by (simp add: call_def generate_curriculum_def)
  have c1: "call = ((handle_exn e, None), w1)" if "api_key self \<noteq> []" "post P req = Inl e" for e
    using try_block_cases(1) [OF ne that(1) req_def w1_def call_def decoded_def that(2)] .
  have c2: "call = ((handle_exn e, None), w1)"
    if "api_key self \<noteq> []" "post P req = Inr resp" "raise_for_status resp = Some e" for resp e
    using try_block_cases(2) [OF ne that(1) req_def w1_def call_def decoded_def that(2,3)] .
  have c3: "call = ((handle_exn e, None), w1)"
    if "api_key self \<noteq> []" "post P req = Inr resp" "raise_for_status resp = None"
      "decoded resp = Inl e" for resp e
    using try_block_cases(3) [OF ne that(1) req_def w1_def call_def decoded_def that(2-4)] .
  have c4: "call = ((handle_exn e, None), w2)"
    if "api_key self \<noteq> []" "post P req = Inr resp" "raise_for_status resp = None"
      "decoded resp = Inr curriculum_data"
      "format_curriculum_display P curriculum_data student_name grade_level w1 = (Inl e, w2)"
    for resp curriculum_data e w2
    using try_block_cases(4) [OF ne that(1) req_def w1_def call_def decoded_def that(2-5)] .
  have c5: "call = ((d, Some t), w3)"
    if "api_key self \<noteq> []" "post P req = Inr resp" "raise_for_status resp = None"
      "decoded resp = Inr curriculum_data"
      "format_curriculum_display P curriculum_data student_name grade_level w1 = (Inr d, w2)"
      "format_curriculum_text P curriculum_data student_name grade_level w2 = (Inr t, w3)"
    for resp curriculum_data d w2 t w3
    using try_block_cases(5) [OF ne that(1) req_def w1_def call_def decoded_def that(2-6)] .
  have t: "\<exists>t w3. format_curriculum_text P curriculum_data student_name grade_level w2 =
      (Inr t, w3) \<and> call = ((d, Some t), w3)"
    if "api_key self \<noteq> []" "post P req = Inr resp" "raise_for_status resp = None"
      "decoded resp = Inr curriculum_data"
      "format_curriculum_display P curriculum_data student_name grade_level w1 = (Inr d, w2)"
    for resp curriculum_data d w2
    using text_returns_when_display_does [OF that(5)] c5 [OF that] by blast
  have "(api_key self = [] \<longrightarrow> call = ((no_key_message, None), w)) \<and>
         (api_key self \<noteq> [] \<longrightarrow>
            (\<forall>e. post P req = Inl e \<longrightarrow> call = ((handle_exn e, None), w1)) \<and>
            (\<forall>resp e. post P req = Inr resp \<and> raise_for_status resp = Some e \<longrightarrow>
               call = ((handle_exn e, None), w1)) \<and>
            (\<forall>resp e. post P req = Inr resp \<and> raise_for_status resp = None \<and>
               decoded resp = Inl e \<longrightarrow> call = ((handle_exn e, None), w1)) \<and>
            (\<forall>resp curriculum_data e w2.
               post P req = Inr resp \<and> raise_for_status resp = None \<and>
               decoded resp = Inr curriculum_data \<and>
               format_curriculum_display P curriculum_data student_name grade_level w1 =
                 (Inl e, w2) \<longrightarrow>
               call = ((handle_exn e, None), w2)) \<and>
            (\<forall>resp curriculum_data d w2.
               post P req = Inr resp \<and> raise_for_status resp = None \<and>
               decoded resp = Inr curriculum_data \<and>
               format_curriculum_display P curriculum_data student_name grade_level w1 =
                 (Inr d, w2) \<longrightarrow>
               (\<exists>t w3. format_curriculum_text P curriculum_data student_name grade_level w2 =
                   (Inr t, w3) \<and> call = ((d, Some t), w3))) \<and>
            (\<forall>resp curriculum_data d w2 t w3.
               post P req = Inr resp \<and> raise_for_status resp = None \<and>
               decoded resp = Inr curriculum_data \<and>
               format_curriculum_display P curriculum_data student_name grade_level w1 =
                 (Inr d, w2) \<and>
               format_curriculum_text P curriculum_data student_name grade_level w2 =
                 (Inr t, w3) \<longrightarrow>
               call = ((d, Some t), w3)))"
    by (intro conjI impI allI; (elim conjE)?)
      (rule k c1 c2 c3 c4 c5 t; assumption)+
  then show "let req = build_request self (build_prompt student_name grade_level
                  (join (ascii '', '') subjects) learning_style weeks_per_year days_per_week
                  goals);
          w1 = w\<lparr>sent := sent w @ [req]\<rparr>;
          decoded = (\<lambda>resp. and_then (json_result resp) (\<lambda>result.
                       and_then (response_text result) (\<lambda>raw.
                       and_then (clean_text raw) (loads P))));
          call = generate_curriculum P self student_name grade_level (Some subjects)
                   learning_style weeks_per_year days_per_week goals w
      in (api_key self = [] \<longrightarrow> call = ((no_key_message, None), w)) \<and>
         (api_key self \<noteq> [] \<longrightarrow>
            (\<forall>e. post P req = Inl e \<longrightarrow> call = ((handle_exn e, None), w1)) \<and>
            (\<forall>resp e. post P req = Inr resp \<and> raise_for_status resp = Some e \<longrightarrow>
               call = ((handle_exn e, None), w1)) \<and>
            (\<forall>resp e. post P req = Inr resp \<and> raise_for_status resp = None \<and>
               decoded resp = Inl e \<longrightarrow> call = ((handle_exn e, None), w1)) \<and>
            (\<forall>resp curriculum_data e w2.
               post P req = Inr resp \<and> raise_for_status resp = None \<and>
               decoded resp = Inr curriculum_data \<and>
               format_curriculum_display P curriculum_data student_name grade_level w1 =
                 (Inl e, w2) \<longrightarrow>
               call = ((handle_exn e, None), w2)) \<and>
            (\<forall>resp curriculum_data d w2.
               post P req = Inr resp \<and> raise_for_status resp = None \<and>
               decoded resp = Inr curriculum_data \<and>
               format_curriculum_display P curriculum_data student_name grade_level w1 =
                 (Inr d, w2) \<longrightarrow>
               (\<exists>t w3. format_curriculum_text P curriculum_data student_name grade_level w2 =
                   (Inr t, w3) \<and> call = ((d, Some t), w3))) \<and>
            (\<forall>resp curriculum_data d w2 t w3.
               post P req = Inr resp \<and> raise_for_status resp = None \<and>
               decoded resp = Inr curriculum_data \<and>
               format_curriculum_display P curriculum_data student_name grade_level w1 =
                 (Inr d, w2) \<and>
               format_curriculum_text P curriculum_data student_name grade_level w2 =
                 (Inr t, w3) \<longrightarrow>
               call = ((d, Some t), w3)))"
    unfolding Let_def req_def w1_def decoded_def call_def .
qed


theorem two_part_result_witness:
  "generate_curriculum (example_platform example_reply steady_clock) (init None) (Some (ascii ''Alex'')) 3
     (Some [ascii ''Math'', ascii ''Science'']) (ascii ''visual'') 36 5 None new_world =
     ((no_key_message, None), new_world) \<and>
   generate_curriculum ((example_platform example_reply steady_clock)\<lparr>post := \<lambda>req. Inl (RequestException (ascii ''Connection refused''))\<rparr>)
     example_generator (Some (ascii ''Alex'')) 3
     (Some [ascii ''Math'', ascii ''Science'']) (ascii ''visual'') 36 5 None new_world =
     ((cross_mark @ ascii '' API request failed: Connection refused'', None),
      new_world\<lparr>sent := [build_request example_generator (build_prompt (Some (ascii ''Alex'')) 3
        (join (ascii '', '') [ascii ''Math'', ascii ''Science'']) (ascii ''visual'') 36 5 None)]\<rparr>) \<and>
   generate_curriculum ((example_platform example_reply steady_clock)\<lparr>post := \<lambda>req. Inr \<lparr>raise_for_status = Some (RequestException (ascii ''401 Client Error'')), json_result = Inr JNull\<rparr>\<rparr>)
     example_generator (Some (ascii ''Alex'')) 3
     (Some [ascii ''Math'', ascii ''Science'']) (ascii ''visual'') 36 5 None new_world =
     ((cross_mark @ ascii '' API request failed: 401 Client Error'', None),
      new_world\<lparr>sent := [build_request example_generator (build_prompt (Some (ascii ''Alex'')) 3
        (join (ascii '', '') [ascii ''Math'', ascii ''Science'']) (ascii ''visual'') 36 5 None)]\<rparr>) \<and>
   generate_curriculum (example_platform (ascii ''not json'') steady_clock)
     example_generator (Some (ascii ''Alex'')) 3
     (Some [ascii ''Math'', ascii ''Science'']) (ascii ''visual'') 36 5 None new_world =
     ((cross_mark @ ascii '' Failed to parse curriculum data: '' @
       ascii ''Expecting value: line 1 column 1 (char 0)'', None),
      new_world\<lparr>sent := [build_request example_generator (build_prompt (Some (ascii ''Alex'')) 3
        (join (ascii '', '') [ascii ''Math'', ascii ''Science'']) (ascii ''visual'') 36 5 None)]\<rparr>) \<and>
   generate_curriculum ((example_platform example_reply steady_clock)\<lparr>loads := \<lambda>s. Inr (JObj [])\<rparr>)
     example_generator (Some (ascii ''Alex'')) 3
     (Some [ascii ''Math'', ascii ''Science'']) (ascii ''visual'') 36 5 None new_world =
     ((cross_mark @ ascii '' Error: '' @ quoted (ascii ''overview''), None),
      \<lparr>sent = [build_request example_generator (build_prompt (Some (ascii ''Alex'')) 3
        (join (ascii '', '') [ascii ''Math'', ascii ''Science'']) (ascii ''visual'') 36 5 None)], clock_reads = 1\<rparr>) \<and>
   generate_curriculum (example_platform example_reply steady_clock)
     example_generator (Some (ascii ''Alex'')) 3
     (Some [ascii ''Math'', ascii ''Science'']) (ascii ''visual'') 36 5 None new_world =
     ((display_of (ascii ''Alex'') (ascii ''3'') (ascii ''2025-06-15'') example_record,
       Some (text_of (ascii ''Alex'') (ascii ''3'') (ascii ''2025-06-15'') example_record)),
      \<lparr>sent = [build_request example_generator (build_prompt (Some (ascii ''Alex'')) 3
        (join (ascii '', '') [ascii ''Math'', ascii ''Science'']) (ascii ''visual'') 36 5 None)], clock_reads = 2\<rparr>)"
proof -
  have cn: "clean_up (ascii ''not json'') = ascii ''not json''"
    by (simp add: clean_up_def replace_def fence_def strip_def isspace_def)
  have r: "example_reply =
    fence @ ascii ''json'' @ ascii ''\<newline>'' @ example_json @ ascii ''\<newline>'' @ fence"
    by (simp add: example_reply_def)
  have cr: "clean_up example_reply = example_json"
    unfolding r using example_json_plain
    by (intro clean_up_json_fenced) (simp_all add: isspace_def)
  have g: "api_key example_generator \<noteq> []" "api_key (init None) = []"
    by (simp_all add: example_generator_def init_def)
  from two_part_result [of "example_platform example_reply steady_clock" "init None" "Some (ascii ''Alex'')" 3
      "Some [ascii ''Math'', ascii ''Science'']" "ascii ''visual''" 36 5 None new_world
      "[ascii ''Math'', ascii ''Science'']"] g have c1:
    "generate_curriculum (example_platform example_reply steady_clock) (init None) (Some (ascii ''Alex'')) 3
         (Some [ascii ''Math'', ascii ''Science'']) (ascii ''visual'') 36 5 None new_world =
         ((no_key_message, None), new_world)"
    by (simp add: Let_def init_def)
  from two_part_result [of "(example_platform example_reply steady_clock)\<lparr>post := \<lambda>req. Inl (RequestException (ascii ''Connection refused''))\<rparr>" example_generator "Some (ascii ''Alex'')" 3
      "Some [ascii ''Math'', ascii ''Science'']" "ascii ''visual''" 36 5 None new_world
      "[ascii ''Math'', ascii ''Science'']"] g have c2:
    "generate_curriculum ((example_platform example_reply steady_clock)\<lparr>post := \<lambda>req. Inl (RequestException (ascii ''Connection refused''))\<rparr>)
         example_generator (Some (ascii ''Alex'')) 3
         (Some [ascii ''Math'', ascii ''Science'']) (ascii ''visual'') 36 5 None new_world =
         ((cross_mark @ ascii '' API request failed: Connection refused'', None),
          new_world\<lparr>sent := [build_request example_generator (build_prompt (Some (ascii ''Alex'')) 3
            (join (ascii '', '') [ascii ''Math'', ascii ''Science'']) (ascii ''visual'') 36 5 None)]\<rparr>)"
    by (simp add: Let_def example_platform_def handle_exn_def new_world_def)
  from two_part_result [of "(example_platform example_reply steady_clock)\<lparr>post := \<lambda>req. Inr \<lparr>raise_for_status = Some (RequestException (ascii ''401 Client Error'')), json_result = Inr JNull\<rparr>\<rparr>" example_generator "Some (ascii ''Alex'')" 3
      "Some [ascii ''Math'', ascii ''Science'']" "ascii ''visual''" 36 5 None new_world
      "[ascii ''Math'', ascii ''Science'']"] g have c3:
    "generate_curriculum ((example_platform example_reply steady_clock)\<lparr>post := \<lambda>req. Inr \<lparr>raise_for_status = Some (RequestException (ascii ''401 Client Error'')), json_result = Inr JNull\<rparr>\<rparr>)
         example_generator (Some (ascii ''Alex'')) 3
         (Some [ascii ''Math'', ascii ''Science'']) (ascii ''visual'') 36 5 None new_world =
         ((cross_mark @ ascii '' API request failed: 401 Client Error'', None),
          new_world\<lparr>sent := [build_request example_generator (build_prompt (Some (ascii ''Alex'')) 3
            (join (ascii '', '') [ascii ''Math'', ascii ''Science'']) (ascii ''visual'') 36 5 None)]\<rparr>)"
    by (simp add: Let_def example_platform_def handle_exn_def new_world_def)
  from two_part_result [of "example_platform (ascii ''not json'') steady_clock" example_generator "Some (ascii ''Alex'')" 3
      "Some [ascii ''Math'', ascii ''Science'']" "ascii ''visual''" 36 5 None new_world
      "[ascii ''Math'', ascii ''Science'']"] g have c4:
    "generate_curriculum (example_platform (ascii ''not json'') steady_clock)
         example_generator (Some (ascii ''Alex'')) 3
         (Some [ascii ''Math'', ascii ''Science'']) (ascii ''visual'') 36 5 None new_world =
         ((cross_mark @ ascii '' Failed to parse curriculum data: '' @
           ascii ''Expecting value: line 1 column 1 (char 0)'', None),
          new_world\<lparr>sent := [build_request example_generator (build_prompt (Some (ascii ''Alex'')) 3
            (join (ascii '', '') [ascii ''Math'', ascii ''Science'']) (ascii ''visual'') 36 5 None)]\<rparr>)"
    by (simp add: Let_def example_reply_text and_then_def clean_text_def cn [simplified] example_loads_def example_json_def json_front_def handle_exn_def new_world_def)
  from two_part_result [of "(example_platform example_reply steady_clock)\<lparr>loads := \<lambda>s. Inr (JObj [])\<rparr>" example_generator "Some (ascii ''Alex'')" 3
      "Some [ascii ''Math'', ascii ''Science'']" "ascii ''visual''" 36 5 None new_world
      "[ascii ''Math'', ascii ''Science'']"] g have c5:
    "generate_curriculum ((example_platform example_reply steady_clock)\<lparr>loads := \<lambda>s. Inr (JObj [])\<rparr>)
         example_generator (Some (ascii ''Alex'')) 3
         (Some [ascii ''Math'', ascii ''Science'']) (ascii ''visual'') 36 5 None new_world =
         ((cross_mark @ ascii '' Error: '' @ quoted (ascii ''overview''), None),
          \<lparr>sent = [build_request example_generator (build_prompt (Some (ascii ''Alex'')) 3
            (join (ascii '', '') [ascii ''Math'', ascii ''Science'']) (ascii ''visual'') 36 5 None)], clock_reads = 1\<rparr>)"
    by (simp add: Let_def example_reply_text example_platform_def reply_with_def reply_json_def response_text_def and_then_def clean_text_def format_curriculum_display_def today_def handle_exn_def new_world_def)
  from two_part_result [of "example_platform example_reply steady_clock" example_generator "Some (ascii ''Alex'')" 3
      "Some [ascii ''Math'', ascii ''Science'']" "ascii ''visual''" 36 5 None new_world
      "[ascii ''Math'', ascii ''Science'']"] g have c6:
    "generate_curriculum (example_platform example_reply steady_clock)
         example_generator (Some (ascii ''Alex'')) 3
         (Some [ascii ''Math'', ascii ''Science'']) (ascii ''visual'') 36 5 None new_world =
         ((display_of (ascii ''Alex'') (ascii ''3'') (ascii ''2025-06-15'') example_record,
           Some (text_of (ascii ''Alex'') (ascii ''3'') (ascii ''2025-06-15'') example_record)),
          \<lparr>sent = [build_request example_generator (build_prompt (Some (ascii ''Alex'')) 3
            (join (ascii '', '') [ascii ''Math'', ascii ''Science'']) (ascii ''visual'') 36 5 None)], clock_reads = 2\<rparr>)"
    by (simp add: Let_def example_reply_text and_then_def clean_text_def cr example_loads_def example_curriculum_def format_curriculum_display_record format_curriculum_text_record example_dates or_else_def truthy_def str_int_def str_nat.simps new_world_def)
  from c1 c2 c3 c4 c5 c6 show ?thesis
    by (intro conjI)
qed

subsection \<open>Cleaning and decoding the reply\<close>

text \<open>
  C4. When the endpoint has answered and the reply text has been extracted:
  \<^item> the text handed to the decoder has lost its surrounding code fence and white space:
    a body without backticks that is wrapped in \<open>```json\<close> ... \<open>```\<close>, in
    \<open>```\<close> ... \<open>```\<close> (white space after the opening fence), or in white space only,
    is cleaned to the body itself;
  \<^item> when the decoder rejects the cleaned text with a \<open>JSONDecodeError\<close>, the call
    returns the parse-failure message with the decoder's diagnostic and no artifact;
  \<^item> when the decoder accepts it, the renderings are those of the decoded value.
\<close>

theorem fences_stripped_then_parsed:
  assumes "subjects \<noteq> []" and "api_key self \<noteq> []"
    and "post P (build_request self (build_prompt student_name grade_level
           (join (ascii '', '') subjects) learning_style weeks days goals)) = Inr resp"
    and "raise_for_status resp = None" and "json_result resp = Inr result"
    and "response_text result = Inr (JStr raw)"
  shows
    "(96 \<notin> set body \<and> list_all isspace wa \<and> list_all isspace wb \<and>
      (body \<noteq> [] \<longrightarrow> \<not> isspace (hd body) \<and> \<not> isspace (last body)) \<longrightarrow>
        clean_up (fence @ ascii ''json'' @ wa @ body @ wb @ fence) = body \<and>
        (wa \<noteq> [] \<longrightarrow> clean_up (fence @ wa @ body @ wb @ fence) = body) \<and>
        clean_up (wa @ body @ wb) = body) \<and>
     (\<forall>d. loads P (clean_up raw) = Inl (JSONDecodeError d) \<longrightarrow>
        generate_curriculum P self student_name grade_level (Some subjects) learning_style
          weeks days goals w =
        ((cross_mark @ ascii '' Failed to parse curriculum data: '' @ d, None),
         w\<lparr>sent := sent w @ [build_request self (build_prompt student_name grade_level
                (join (ascii '', '') subjects) learning_style weeks days goals)]\<rparr>)) \<and>
     (\<forall>curriculum_data. loads P (clean_up raw) = Inr curriculum_data \<longrightarrow>
        generate_curriculum P self student_name grade_level (Some subjects) learning_style
          weeks days goals w =
        (case format_curriculum_display P curriculum_data student_name grade_level
                (w\<lparr>sent := sent w @ [build_request self (build_prompt student_name
                   grade_level (join (ascii '', '') subjects) learning_style weeks days
                   goals)]\<rparr>) of
           (Inl e, w2) \<Rightarrow> ((handle_exn e, None), w2)
         | (Inr formatted_output, w2) \<Rightarrow>
        (case format_curriculum_text P curriculum_data student_name grade_level w2 of
           (Inl e, w3) \<Rightarrow> ((handle_exn e, None), w3)
         | (Inr download_text, w3) \<Rightarrow> ((formatted_output, Some download_text), w3))))"
proof (intro conjI allI impI)
  assume b: "96 \<notin> set body \<and> list_all isspace wa \<and> list_all isspace wb \<and>
    (body \<noteq> [] \<longrightarrow> \<not> isspace (hd body) \<and> \<not> isspace (last body))"
  then show "clean_up (fence @ ascii ''json'' @ wa @ body @ wb @ fence) = body"
    by (intro clean_up_json_fenced) simp_all
  from b show "clean_up (wa @ body @ wb) = body"
    by (intro clean_up_unfenced) simp_all
  assume "wa \<noteq> []"
  with b show "clean_up (fence @ wa @ body @ wb @ fence) = body"
    by (intro clean_up_plain_fenced) simp_all
next
  fix d
  assume "loads P (clean_up raw) = Inl (JSONDecodeError d)"
  then show "generate_curriculum P self student_name grade_level (Some subjects) learning_style
          weeks days goals w =
        ((cross_mark @ ascii '' Failed to parse curriculum data: '' @ d, None),
         w\<lparr>sent := sent w @ [build_request self (build_prompt student_name grade_level
                (join (ascii '', '') subjects) learning_style weeks days goals)]\<rparr>)"
    unfolding generate_curriculum_decoded [OF assms] by (simp add: handle_exn_def)
next
  fix curriculum_data
  assume "loads P (clean_up raw) = Inr curriculum_data"
  then show "generate_curriculum P self student_name grade_level (Some subjects) learning_style
          weeks days goals w =
        (case format_curriculum_display P curriculum_data student_name grade_level
                (w\<lparr>sent := sent w @ [build_request self (build_prompt student_name
                   grade_level (join (ascii '', '') subjects) learning_style weeks days
                   goals)]\<rparr>) of
           (Inl e, w2) \<Rightarrow> ((handle_exn e, None), w2)
         | (Inr formatted_output, w2) \<Rightarrow>
        (case format_curriculum_text P curriculum_data student_name grade_level w2 of
           (Inl e, w3) \<Rightarrow> ((handle_exn e, None), w3)
         | (Inr download_text, w3) \<Rightarrow> ((formatted_output, Some download_text), w3)))"
    unfolding generate_curriculum_decoded [OF assms] by simp
qed

theorem fences_stripped_then_parsed_witness:
  "clean_up (fence @ ascii ''json'' @ ascii ''\<newline>'' @ example_json @ ascii ''\<newline>'' @ fence) =
     example_json \<and>
   clean_up (fence @ ascii ''\<newline>'' @ example_json @ ascii ''\<newline>'' @ fence) = example_json \<and>
   clean_up (ascii ''\<newline>'' @ example_json @ ascii ''\<newline>'') = example_json \<and>
   generate_curriculum (example_platform (ascii ''not json'') steady_clock) example_generator
     (Some (ascii ''Alex'')) 3 (Some [ascii ''Math'', ascii ''Science'']) (ascii ''visual'') 36 5
     None new_world =
     ((cross_mark @ ascii '' Failed to parse curriculum data: '' @
       ascii ''Expecting value: line 1 column 1 (char 0)'', None),
      new_world\<lparr>sent := sent new_world @ [build_request example_generator
        (build_prompt (Some (ascii ''Alex'')) 3
           (join (ascii '', '') [ascii ''Math'', ascii ''Science'']) (ascii ''visual'') 36 5
           None)]\<rparr>) \<and>
   fst (generate_curriculum (example_platform example_reply steady_clock) example_generator
     (Some (ascii ''Alex'')) 3 (Some [ascii ''Math'', ascii ''Science'']) (ascii ''visual'') 36 5
     None new_world) =
     (display_of (ascii ''Alex'') (ascii ''3'') (ascii ''2025-06-15'') example_record,
      Some (text_of (ascii ''Alex'') (ascii ''3'') (ascii ''2025-06-15'') example_record))"
proof -
  have ws: "list_all isspace (ascii ''\<newline>'')" "ascii ''\<newline>'' \<noteq> []"
    by (simp_all add: isspace_def)
  have c: "clean_up (ascii ''not json'') = ascii ''not json''"
    by (simp add: clean_up_def replace_def fence_def strip_def isspace_def)
  have l: "example_loads (ascii ''not json'') =
    Inl (JSONDecodeError (ascii ''Expecting value: line 1 column 1 (char 0)''))"
    by (simp add: example_loads_def example_json_def json_front_def)
  have r: "example_reply =
    fence @ ascii ''json'' @ ascii ''\<newline>'' @ example_json @ ascii ''\<newline>'' @ fence"
    by (simp add: example_reply_def)
  note bad = fences_stripped_then_parsed [of "[ascii ''Math'', ascii ''Science'']"
      example_generator "example_platform (ascii ''not json'') steady_clock"
      "Some (ascii ''Alex'')" 3 "ascii ''visual''" 36 5 None "reply_with (ascii ''not json'')"
      "reply_json (ascii ''not json'')" "ascii ''not json''" example_json "ascii ''\<newline>''"
      "ascii ''\<newline>''" new_world,
      OF _ example_reply_text(7) example_reply_text(1) example_reply_text(2)
        example_reply_text(3) example_reply_text(4)]
  note good = fences_stripped_then_parsed [of "[ascii ''Math'', ascii ''Science'']"
      example_generator "example_platform example_reply steady_clock"
      "Some (ascii ''Alex'')" 3 "ascii ''visual''" 36 5 None "reply_with example_reply"
      "reply_json example_reply" example_reply example_json "ascii ''\<newline>''"
      "ascii ''\<newline>''" new_world,
      OF _ example_reply_text(7) example_reply_text(1) example_reply_text(2)
        example_reply_text(3) example_reply_text(4)]
  from good ws example_json_plain have cr: "clean_up example_reply = example_json"
    unfolding r by simp
  from bad ws example_json_plain c l have
    "clean_up (fence @ ascii ''json'' @ ascii ''\<newline>'' @ example_json @ ascii ''\<newline>'' @ fence) =
       example_json \<and>
     clean_up (fence @ ascii ''\<newline>'' @ example_json @ ascii ''\<newline>'' @ fence) = example_json \<and>
     clean_up (ascii ''\<newline>'' @ example_json @ ascii ''\<newline>'') = example_json \<and>
     generate_curriculum (example_platform (ascii ''not json'') steady_clock) example_generator
       (Some (ascii ''Alex'')) 3 (Some [ascii ''Math'', ascii ''Science'']) (ascii ''visual'') 36 5
       None new_world =
       ((cross_mark @ ascii '' Failed to parse curriculum data: '' @
         ascii ''Expecting value: line 1 column 1 (char 0)'', None),
        new_world\<lparr>sent := sent new_world @ [build_request example_generator
          (build_prompt (Some (ascii ''Alex'')) 3
             (join (ascii '', '') [ascii ''Math'', ascii ''Science'']) (ascii ''visual'') 36 5
             None)]\<rparr>)"
    unfolding example_reply_text(5) by simp
  moreover from good cr have
    "fst (generate_curriculum (example_platform example_reply steady_clock) example_generator
       (Some (ascii ''Alex'')) 3 (Some [ascii ''Math'', ascii ''Science'']) (ascii ''visual'') 36 5
       None new_world) =
       (display_of (ascii ''Alex'') (ascii ''3'') (ascii ''2025-06-15'') example_record,
        Some (text_of (ascii ''Alex'') (ascii ''3'') (ascii ''2025-06-15'') example_record))"
    unfolding example_reply_text(5)
    by (simp add: example_loads_def example_curriculum_def format_curriculum_display_record
        format_curriculum_text_record example_reply_text(6) example_dates
        or_else_def truthy_def str_int_def str_nat.simps)
  ultimately show ?thesis
    by simp
qed

subsection \<open>Fences inside the reply\<close>

text \<open>
  C9. The cleaning step removes every occurrence of the fence, wherever it stands: the
  cleaned text contains neither \<open>```\<close> nor \<open>```json\<close>, a fence between two
  backtick-free parts of the reply is deleted (with the word \<open>json\<close> when it follows
  the fence), and a reply that contains a fence is never handed to the decoder as it came
  (stripped of white space only). The decoder is applied to the cleaned text, so a fence
  inside a JSON string value is missing from the decoded data.
\<close>

theorem every_fence_removed:
  "\<not> sublist fence (clean_up s) \<and>
   \<not> sublist (fence @ ascii ''json'') (clean_up s) \<and>
   (sublist fence s \<longrightarrow> clean_up s \<noteq> strip s) \<and>
   (96 \<notin> set front \<and> 96 \<notin> set rest \<longrightarrow>
      clean_up (front @ fence @ ascii ''json'' @ rest) = strip (front @ rest) \<and>
      (\<not> prefix (ascii ''json'') rest \<longrightarrow>
         clean_up (front @ fence @ rest) = strip (front @ rest))) \<and>
   and_then (clean_text (JStr s)) (loads P) = loads P (clean_up s)"
proof (intro conjI impI)
  show "\<not> sublist fence (clean_up s)"
    by (rule no_fence_left)
  show "\<not> sublist (fence @ ascii ''json'') (clean_up s)"
  proof
    assume "sublist (fence @ ascii ''json'') (clean_up s)"
    with sublist_append_rightI [of fence "ascii ''json''"] have "sublist fence (clean_up s)"
      by (rule sublist_order.order.trans)
    with no_fence_left show False
      by blast
  qed
  show "clean_up s \<noteq> strip s" if "sublist fence s"
    using that by (rule interior_fence_altered)
  show "and_then (clean_text (JStr s)) (loads P) = loads P (clean_up s)"
    by (simp add: clean_text_def and_then_def)
next
  assume "96 \<notin> set front \<and> 96 \<notin> set rest"
  then show "clean_up (front @ fence @ ascii ''json'' @ rest) = strip (front @ rest)"
    by (intro interior_json_fence_deleted) simp_all
next
  assume "96 \<notin> set front \<and> 96 \<notin> set rest" and "\<not> prefix (ascii ''json'') rest"
  then show "clean_up (front @ fence @ rest) = strip (front @ rest)"
    by (intro interior_fence_deleted) simp_all
qed

theorem every_fence_removed_witness:
  "sublist fence (json_front @ fence @ json_rest) \<and>
   clean_up (json_front @ fence @ json_rest) \<noteq> strip (json_front @ fence @ json_rest) \<and>
   96 \<notin> set json_front \<and> 96 \<notin> set json_rest \<and> \<not> prefix (ascii ''json'') json_rest \<and>
   clean_up (json_front @ fence @ ascii ''json'' @ json_rest) = example_json \<and>
   clean_up (json_front @ fence @ json_rest) = example_json \<and>
   fst (generate_curriculum (example_platform (json_front @ fence @ json_rest) steady_clock)
     example_generator (Some (ascii ''Alex'')) 3 (Some [ascii ''Math'', ascii ''Science''])
     (ascii ''visual'') 36 5 None new_world) =
     (display_of (ascii ''Alex'') (ascii ''3'') (ascii ''2025-06-15'') example_record,
      Some (text_of (ascii ''Alex'') (ascii ''3'') (ascii ''2025-06-15'') example_record))"
proof -
  note t = every_fence_removed [of "json_front @ fence @ json_rest" json_front json_rest
      "example_platform (json_front @ fence @ json_rest) steady_clock"]
  have p: "96 \<notin> set json_front" "96 \<notin> set json_rest" "\<not> prefix (ascii ''json'') json_rest"
    by (simp_all add: json_front_def json_rest_def)
  have s: "strip (json_front @ json_rest) = example_json"
    using strip_padding [of "[]" "[]" example_json] example_json_plain
    by (simp add: example_json_def)
  have sub: "sublist fence (json_front @ fence @ json_rest)"
    by simp
  from t sub have ne:
    "clean_up (json_front @ fence @ json_rest) \<noteq> strip (json_front @ fence @ json_rest)"
    by blast
  from t p s have c: "clean_up (json_front @ fence @ json_rest) = example_json"
    by simp
  from t p s have cj: "clean_up (json_front @ fence @ ascii ''json'' @ json_rest) = example_json"
    by simp
  note d = generate_curriculum_decoded [of "[ascii ''Math'', ascii ''Science'']"
      example_generator "example_platform (json_front @ fence @ json_rest) steady_clock"
      "Some (ascii ''Alex'')" 3 "ascii ''visual''" 36 5 None
      "reply_with (json_front @ fence @ json_rest)"
      "reply_json (json_front @ fence @ json_rest)" "json_front @ fence @ json_rest" new_world,
      OF _ example_reply_text(7) example_reply_text(1) example_reply_text(2)
        example_reply_text(3) example_reply_text(4)]
  from d c have e:
    "fst (generate_curriculum (example_platform (json_front @ fence @ json_rest) steady_clock)
       example_generator (Some (ascii ''Alex'')) 3 (Some [ascii ''Math'', ascii ''Science''])
       (ascii ''visual'') 36 5 None new_world) =
       (display_of (ascii ''Alex'') (ascii ''3'') (ascii ''2025-06-15'') example_record,
        Some (text_of (ascii ''Alex'') (ascii ''3'') (ascii ''2025-06-15'') example_record))"
    unfolding example_reply_text(5)
    by (simp add: example_loads_def example_curriculum_def format_curriculum_display_record
        format_curriculum_text_record example_reply_text(6) example_dates
        or_else_def truthy_def str_int_def str_nat.simps)
  from sub ne p cj c e show ?thesis
    by (intro conjI)
qed

subsection \<open>Order and numbering in the renderings\<close>

text \<open>
  C5. For every well-formed curriculum record, both renderers return the rendering the
  specification describes: the subject blocks in the order of the record, then the day
  blocks in the order of the record, the period lines of a day in the order of its
  periods, nothing sorted; and in each subject block the objectives are numbered from 1,
  each subject on its own.
\<close>

theorem renderers_keep_order:
  "fst (format_curriculum_display P (record_json r) student_name grade_level w) =
     Inr (display_of (or_else student_name (ascii ''Student'')) (str_int grade_level)
            (strftime_ymd (now P (clock_reads w))) r) \<and>
   fst (format_curriculum_text P (record_json r) student_name grade_level w) =
     Inr (text_of (or_else student_name (ascii ''Student'')) (str_int grade_level)
            (strftime_ymd (now P (clock_reads w))) r)"
  by (simp add: format_curriculum_display_record format_curriculum_text_record)

subsection \<open>What the renderings depend on\<close>

text \<open>
  C7, as stated, fails: the renderers are not functions of the record, the student name
  and the grade alone. Each reads the clock, so the same record rendered before and after
  midnight gives two different renderings, and within one call of
  \<open>generate_curriculum\<close> the display can carry one date and the download the next.
\<close>

theorem renderers_read_the_clock_counterexample:
  "fst (format_curriculum_display (example_platform example_reply midnight_clock)
          example_curriculum (Some (ascii ''Alex'')) 3 new_world) \<noteq>
   fst (format_curriculum_display (example_platform example_reply midnight_clock)
          example_curriculum (Some (ascii ''Alex'')) 3 (new_world\<lparr>clock_reads := 1\<rparr>)) \<and>
   fst (format_curriculum_text (example_platform example_reply midnight_clock)
          example_curriculum (Some (ascii ''Alex'')) 3 new_world) \<noteq>
   fst (format_curriculum_text (example_platform example_reply midnight_clock)
          example_curriculum (Some (ascii ''Alex'')) 3 (new_world\<lparr>clock_reads := 1\<rparr>)) \<and>
   fst (generate_curriculum (example_platform example_reply midnight_clock) example_generator
          (Some (ascii ''Alex'')) 3 (Some [ascii ''Math'', ascii ''Science''])
          (ascii ''visual'') 36 5 None new_world) =
     (display_of (ascii ''Alex'') (ascii ''3'') (ascii ''2025-12-31'') example_record,
      Some (text_of (ascii ''Alex'') (ascii ''3'') (ascii ''2026-01-01'') example_record))"
proof -
  have r: "example_reply =
    fence @ ascii ''json'' @ ascii ''\<newline>'' @ example_json @ ascii ''\<newline>'' @ fence"
    by (simp add: example_reply_def)
  have cr: "clean_up example_reply = example_json"
    unfolding r using example_json_plain
    by (intro clean_up_json_fenced) (simp_all add: isspace_def)
  note d = generate_curriculum_decoded [of "[ascii ''Math'', ascii ''Science'']"
      example_generator "example_platform example_reply midnight_clock"
      "Some (ascii ''Alex'')" 3 "ascii ''visual''" 36 5 None
      "reply_with example_reply" "reply_json example_reply" example_reply new_world,
      OF _ example_reply_text(7) example_reply_text(1) example_reply_text(2)
        example_reply_text(3) example_reply_text(4)]
  from d cr have
    "fst (generate_curriculum (example_platform example_reply midnight_clock) example_generator
          (Some (ascii ''Alex'')) 3 (Some [ascii ''Math'', ascii ''Science''])
          (ascii ''visual'') 36 5 None new_world) =
     (display_of (ascii ''Alex'') (ascii ''3'') (ascii ''2025-12-31'') example_record,
      Some (text_of (ascii ''Alex'') (ascii ''3'') (ascii ''2026-01-01'') example_record))"
    unfolding example_reply_text(5)
    by (simp add: example_loads_def example_curriculum_def format_curriculum_display_record
        format_curriculum_text_record example_reply_text(6) example_dates new_world_def
        or_else_def truthy_def str_int_def str_nat.simps)
  moreover have
    "fst (format_curriculum_display (example_platform example_reply midnight_clock)
          example_curriculum (Some (ascii ''Alex'')) 3 new_world) \<noteq>
     fst (format_curriculum_display (example_platform example_reply midnight_clock)
          example_curriculum (Some (ascii ''Alex'')) 3 (new_world\<lparr>clock_reads := 1\<rparr>))"
    by (simp add: example_curriculum_def format_curriculum_display_record
        example_reply_text(6) example_dates new_world_def display_of_def display_header_def)
  moreover have
    "fst (format_curriculum_text (example_platform example_reply midnight_clock)
          example_curriculum (Some (ascii ''Alex'')) 3 new_world) \<noteq>
     fst (format_curriculum_text (example_platform example_reply midnight_clock)
          example_curriculum (Some (ascii ''Alex'')) 3 (new_world\<lparr>clock_reads := 1\<rparr>))"
    by (simp add: example_curriculum_def format_curriculum_text_record
        example_reply_text(6) example_dates new_world_def text_of_def text_header_def)
  ultimately show ?thesis
    by (intro conjI)
qed

text \<open>
  C7, amended. Both renderers are functions of the curriculum record, the student name,
  the grade and the calendar date the clock gives when each of them runs. The display
  and the plain-text rendering are the two layouts of the same header fields and of the
  same data read from the record (for a well-formed record, the record itself), so they
  never diverge in data other than the generation date, only in markup; two renderings
  by the same renderer from the same inputs are identical whenever the two clock
  readings fall on the same date; and on any decoded value the two renderers raise the
  same exception or both return.
\<close>

theorem renderings_depend_on_date:
  "format_curriculum_display P c student_name grade_level w =
     (and_then (contents P c) (\<lambda>r.
        Inr (display_of (or_else student_name (ascii ''Student'')) (str_int grade_level)
               (strftime_ymd (now P (clock_reads w))) r)),
      w\<lparr>clock_reads := Suc (clock_reads w)\<rparr>) \<and>
   format_curriculum_text P c student_name grade_level w' =
     (and_then (contents P c) (\<lambda>r.
        Inr (text_of (or_else student_name (ascii ''Student'')) (str_int grade_level)
               (strftime_ymd (now P (clock_reads w'))) r)),
      w'\<lparr>clock_reads := Suc (clock_reads w')\<rparr>) \<and>
   contents P (record_json r) = Inr r \<and>
   (dt_year (now P (clock_reads w)) = dt_year (now P (clock_reads w')) \<and>
    dt_month (now P (clock_reads w)) = dt_month (now P (clock_reads w')) \<and>
    dt_day (now P (clock_reads w)) = dt_day (now P (clock_reads w')) \<longrightarrow>
      fst (format_curriculum_display P c student_name grade_level w) =
        fst (format_curriculum_display P c student_name grade_level w') \<and>
      fst (format_curriculum_text P c student_name grade_level w) =
        fst (format_curriculum_text P c student_name grade_level w')) \<and>
   raised (fst (format_curriculum_display P c student_name grade_level w)) =
     raised (fst (format_curriculum_text P c student_name grade_level w'))"
proof (intro conjI impI)
  show "format_curriculum_display P c student_name grade_level w =
     (and_then (contents P c) (\<lambda>r.
        Inr (display_of (or_else student_name (ascii ''Student'')) (str_int grade_level)
               (strftime_ymd (now P (clock_reads w))) r)),
      w\<lparr>clock_reads := Suc (clock_reads w)\<rparr>)"
    by (rule format_curriculum_display_contents)
  show "format_curriculum_text P c student_name grade_level w' =
     (and_then (contents P c) (\<lambda>r.
        Inr (text_of (or_else student_name (ascii ''Student'')) (str_int grade_level)
               (strftime_ymd (now P (clock_reads w'))) r)),
      w'\<lparr>clock_reads := Suc (clock_reads w')\<rparr>)"
    by (rule format_curriculum_text_contents)
  show "contents P (record_json r) = Inr r"
    by (rule contents_record)
  show "raised (fst (format_curriculum_display P c student_name grade_level w)) =
     raised (fst (format_curriculum_text P c student_name grade_level w'))"
    by (rule raised_renderers)
next
  assume "dt_year (now P (clock_reads w)) = dt_year (now P (clock_reads w')) \<and>
    dt_month (now P (clock_reads w)) = dt_month (now P (clock_reads w')) \<and>
    dt_day (now P (clock_reads w)) = dt_day (now P (clock_reads w'))"
  then have d: "strftime_ymd (now P (clock_reads w)) = strftime_ymd (now P (clock_reads w'))"
    by (simp add: strftime_ymd_def)
  show "fst (format_curriculum_display P c student_name grade_level w) =
        fst (format_curriculum_display P c student_name grade_level w')"
    by (simp add: format_curriculum_display_contents d)
  show "fst (format_curriculum_text P c student_name grade_level w) =
        fst (format_curriculum_text P c student_name grade_level w')"
    by (simp add: format_curriculum_text_contents d)
qed

theorem renderings_depend_on_date_witness:
  "dt_year (midnight_clock 1) = dt_year (midnight_clock 2) \<and>
   dt_month (midnight_clock 1) = dt_month (midnight_clock 2) \<and>
   dt_day (midnight_clock 1) = dt_day (midnight_clock 2) \<and>
   midnight_clock 1 \<noteq> midnight_clock 2 \<and>
   fst (format_curriculum_display (example_platform example_reply midnight_clock)
          example_curriculum (Some (ascii ''Alex'')) 3 (new_world\<lparr>clock_reads := 1\<rparr>)) =
   fst (format_curriculum_display (example_platform example_reply midnight_clock)
          example_curriculum (Some (ascii ''Alex'')) 3 (new_world\<lparr>clock_reads := 2\<rparr>)) \<and>
   fst (format_curriculum_text (example_platform example_reply midnight_clock)
          example_curriculum (Some (ascii ''Alex'')) 3 (new_world\<lparr>clock_reads := 1\<rparr>)) =
   fst (format_curriculum_text (example_platform example_reply midnight_clock)
          example_curriculum (Some (ascii ''Alex'')) 3 (new_world\<lparr>clock_reads := 2\<rparr>)) \<and>
   fst (format_curriculum_display (example_platform example_reply midnight_clock)
          example_curriculum (Some (ascii ''Alex'')) 3 (new_world\<lparr>clock_reads := 1\<rparr>)) =
     Inr (display_of (ascii ''Alex'') (ascii ''3'') (ascii ''2026-01-01'') example_record) \<and>
   fst (format_curriculum_text (example_platform example_reply midnight_clock)
          example_curriculum (Some (ascii ''Alex'')) 3 (new_world\<lparr>clock_reads := 2\<rparr>)) =
     Inr (text_of (ascii ''Alex'') (ascii ''3'') (ascii ''2026-01-01'') example_record)"
proof -
  have h: "dt_year (midnight_clock 1) = dt_year (midnight_clock 2)"
    "dt_month (midnight_clock 1) = dt_month (midnight_clock 2)"
    "dt_day (midnight_clock 1) = dt_day (midnight_clock 2)"
    and n: "midnight_clock 1 \<noteq> midnight_clock 2"
    by (simp_all add: midnight_clock_def)
  have k: "now (example_platform example_reply midnight_clock)
      (clock_reads (new_world\<lparr>clock_reads := 1\<rparr>)) = midnight_clock 1"
    "now (example_platform example_reply midnight_clock)
      (clock_reads (new_world\<lparr>clock_reads := 2\<rparr>)) = midnight_clock 2"
    by (simp_all add: example_reply_text(6))
  have dt: "strftime_ymd (midnight_clock 1) = ascii ''2026-01-01''"
    "strftime_ymd (midnight_clock 2) = ascii ''2026-01-01''"
    by (simp_all add: strftime_ymd_def zero_pad_def str_nat.simps midnight_clock_def)
  note t = renderings_depend_on_date [of "example_platform example_reply midnight_clock"
      example_curriculum "Some (ascii ''Alex'')" 3 "new_world\<lparr>clock_reads := 1\<rparr>"
      "new_world\<lparr>clock_reads := 2\<rparr>" example_record, unfolded k]
  note same = t [THEN conjunct2, THEN conjunct2, THEN conjunct2, THEN conjunct1, rule_format,
      OF conjI [OF h(1) conjI [OF h(2) h(3)]]]
  from t have c: "contents (example_platform example_reply midnight_clock) example_curriculum =
      Inr example_record"
    by (simp add: example_curriculum_def)
  from t [THEN conjunct1] c dt have d1:
    "fst (format_curriculum_display (example_platform example_reply midnight_clock)
          example_curriculum (Some (ascii ''Alex'')) 3 (new_world\<lparr>clock_reads := 1\<rparr>)) =
     Inr (display_of (ascii ''Alex'') (ascii ''3'') (ascii ''2026-01-01'') example_record)"
    by (simp add: and_then_def or_else_def truthy_def str_int_def str_nat.simps)
  from t [THEN conjunct2, THEN conjunct1] c dt have d2:
    "fst (format_curriculum_text (example_platform example_reply midnight_clock)
          example_curriculum (Some (ascii ''Alex'')) 3 (new_world\<lparr>clock_reads := 2\<rparr>)) =
     Inr (text_of (ascii ''Alex'') (ascii ''3'') (ascii ''2026-01-01'') example_record)"
    by (simp add: and_then_def or_else_def truthy_def str_int_def str_nat.simps)
  from h n same d1 d2 show ?thesis
    by blast
qed

subsection \<open>The prompt\<close>

text \<open>
  C8. The request that \<open>generate_curriculum\<close> sends carries one message, the prompt.
  The prompt has the subjects on the line "Subjects to cover:", joined with a comma and
  a space. When the goals are non-empty, the line after the academic-year line is
  "Learning goals:" followed by the goals; when they are empty or absent that line is
  empty, and the prompt is the prompt without goals exactly in that case. The student is
  named by the given name when there is one, and by the placeholder "Student" when the
  name is absent or empty.
\<close>

theorem prompt_contents:
  "(subjects \<noteq> [] \<and> api_key self \<noteq> [] \<longrightarrow>
      sent (snd (generate_curriculum P self student_name grade_level (Some subjects)
        learning_style weeks days goals w)) =
      sent w @ [build_request self (build_prompt student_name grade_level
        (join (ascii '', '') subjects) learning_style weeks days goals)]) \<and>
   map content (messages (json_data (build_request self (build_prompt student_name grade_level
     (join (ascii '', '') subjects) learning_style weeks days goals)))) =
     [build_prompt student_name grade_level (join (ascii '', '') subjects) learning_style
        weeks days goals] \<and>
   sublist (ascii ''\<newline>Subjects to cover: '' @ join (ascii '', '') subjects @
            ascii ''\<newline>Learning style: '')
     (build_prompt student_name grade_level (join (ascii '', '') subjects) learning_style
        weeks days goals) \<and>
   join (ascii '', '') (x # xs) = x @ concat (map (\<lambda>y. ascii '', '' @ y) xs) \<and>
   (truthy goals \<longrightarrow>
      sublist (ascii '' days per week\<newline>Learning goals: '' @ the goals @
               ascii ''\<newline>\<newline>Please provide:\<newline>'')
        (build_prompt student_name grade_level (join (ascii '', '') subjects) learning_style
           weeks days goals)) \<and>
   (\<not> truthy goals \<longrightarrow>
      sublist (ascii '' days per week\<newline>\<newline>\<newline>Please provide:\<newline>'')
        (build_prompt student_name grade_level (join (ascii '', '') subjects) learning_style
           weeks days goals)) \<and>
   (build_prompt student_name grade_level (join (ascii '', '') subjects) learning_style
      weeks days goals =
    build_prompt student_name grade_level (join (ascii '', '') subjects) learning_style
      weeks days None \<longleftrightarrow> \<not> truthy goals) \<and>
   (truthy student_name \<longrightarrow>
      sublist (ascii '' grade student named '' @ the student_name @
               ascii ''.\<newline>\<newline>Subjects to cover: '')
        (build_prompt student_name grade_level (join (ascii '', '') subjects) learning_style
           weeks days goals)) \<and>
   (\<not> truthy student_name \<longrightarrow>
      sublist (ascii '' grade student named Student.\<newline>\<newline>Subjects to cover: '')
        (build_prompt student_name grade_level (join (ascii '', '') subjects) learning_style
           weeks days goals))"
proof (intro conjI impI)
  assume "subjects \<noteq> [] \<and> api_key self \<noteq> []"
  then show "sent (snd (generate_curriculum P self student_name grade_level (Some subjects)
        learning_style weeks days goals w)) =
      sent w @ [build_request self (build_prompt student_name grade_level
        (join (ascii '', '') subjects) learning_style weeks days goals)]"
    using try_body_sent [of P self "build_prompt student_name grade_level
        (join (ascii '', '') subjects) learning_style weeks days goals" student_name
        grade_level w]
    by (auto simp: generate_curriculum_def Let_def split: prod.splits sum.splits)
next
  show "map content (messages (json_data (build_request self (build_prompt student_name
     grade_level (join (ascii '', '') subjects) learning_style weeks days goals)))) =
     [build_prompt student_name grade_level (join (ascii '', '') subjects) learning_style
        weeks days goals]"
    by (simp add: build_request_def)
next
  show "sublist (ascii ''\<newline>Subjects to cover: '' @ join (ascii '', '') subjects @
            ascii ''\<newline>Learning style: '')
     (build_prompt student_name grade_level (join (ascii '', '') subjects) learning_style
        weeks days goals)"
    by (rule prompt_subjects)
next
  show "join (ascii '', '') (x # xs) = x @ concat (map (\<lambda>y. ascii '', '' @ y) xs)"
    by (rule join_Cons)
next
  assume "truthy goals"
  then show "sublist (ascii '' days per week\<newline>Learning goals: '' @ the goals @
               ascii ''\<newline>\<newline>Please provide:\<newline>'')
        (build_prompt student_name grade_level (join (ascii '', '') subjects) learning_style
           weeks days goals)"
    by (rule prompt_goals_given)
next
  assume "\<not> truthy goals"
  then show "sublist (ascii '' days per week\<newline>\<newline>\<newline>Please provide:\<newline>'')
        (build_prompt student_name grade_level (join (ascii '', '') subjects) learning_style
           weeks days goals)"
    by (rule prompt_no_goals)
next
  show "build_prompt student_name grade_level (join (ascii '', '') subjects) learning_style
      weeks days goals =
    build_prompt student_name grade_level (join (ascii '', '') subjects) learning_style
      weeks days None \<longleftrightarrow> \<not> truthy goals"
    by (rule prompt_goals_iff)
next
  assume "truthy student_name"
  then show "sublist (ascii '' grade student named '' @ the student_name @
               ascii ''.\<newline>\<newline>Subjects to cover: '')
        (build_prompt student_name grade_level (join (ascii '', '') subjects) learning_style
           weeks days goals)"
    using prompt_name [of student_name grade_level "join (ascii '', '') subjects"
        learning_style weeks days goals]
    by (simp add: or_else_def)
next
  assume "\<not> truthy student_name"
  then show "sublist (ascii '' grade student named Student.\<newline>\<newline>Subjects to cover: '')
        (build_prompt student_name grade_level (join (ascii '', '') subjects) learning_style
           weeks days goals)"
    using prompt_name [of student_name grade_level "join (ascii '', '') subjects"
        learning_style weeks days goals]
    by (simp add: or_else_def)
qed


theorem prompt_contents_witness:
  "sent (snd (generate_curriculum (example_platform example_reply steady_clock)
      example_generator (Some (ascii ''Alex'')) 3 (Some [ascii ''Math'', ascii ''Science''])
      (ascii ''visual'') 36 5 (Some (ascii ''Read daily'')) new_world)) =
     [build_request example_generator (build_prompt (Some (ascii ''Alex'')) 3
        (ascii ''Math, Science'') (ascii ''visual'') 36 5 (Some (ascii ''Read daily'')))] \<and>
   sublist (ascii ''\<newline>Subjects to cover: Math, Science\<newline>Learning style: '')
     (build_prompt (Some (ascii ''Alex'')) 3 (ascii ''Math, Science'') (ascii ''visual'') 36 5
        (Some (ascii ''Read daily''))) \<and>
   sublist (ascii '' days per week\<newline>Learning goals: Read daily\<newline>\<newline>Please provide:\<newline>'')
     (build_prompt (Some (ascii ''Alex'')) 3 (ascii ''Math, Science'') (ascii ''visual'') 36 5
        (Some (ascii ''Read daily''))) \<and>
   sublist (ascii '' grade student named Alex.\<newline>\<newline>Subjects to cover: '')
     (build_prompt (Some (ascii ''Alex'')) 3 (ascii ''Math, Science'') (ascii ''visual'') 36 5
        (Some (ascii ''Read daily''))) \<and>
   build_prompt (Some (ascii ''Alex'')) 3 (ascii ''Math, Science'') (ascii ''visual'') 36 5
     (Some (ascii ''Read daily'')) \<noteq>
   build_prompt (Some (ascii ''Alex'')) 3 (ascii ''Math, Science'') (ascii ''visual'') 36 5 None \<and>
   sublist (ascii '' days per week\<newline>\<newline>\<newline>Please provide:\<newline>'')
     (build_prompt None 3 (ascii ''Math, Science'') (ascii ''visual'') 36 5 (Some [])) \<and>
   sublist (ascii '' grade student named Student.\<newline>\<newline>Subjects to cover: '')
     (build_prompt None 3 (ascii ''Math, Science'') (ascii ''visual'') 36 5 (Some [])) \<and>
   build_prompt None 3 (ascii ''Math, Science'') (ascii ''visual'') 36 5 (Some []) =
   build_prompt None 3 (ascii ''Math, Science'') (ascii ''visual'') 36 5 None"
proof -
  note given = prompt_contents [of "[ascii ''Math'', ascii ''Science'']" example_generator
      "example_platform example_reply steady_clock" "Some (ascii ''Alex'')" 3
      "ascii ''visual''" 36 5 "Some (ascii ''Read daily'')" new_world "ascii ''Math''"
      "[ascii ''Science'']"]
  note absent = prompt_contents [of "[ascii ''Math'', ascii ''Science'']" example_generator
      "example_platform example_reply steady_clock" None 3
      "ascii ''visual''" 36 5 "Some []" new_world "ascii ''Math''" "[ascii ''Science'']"]
  from given [THEN conjunct1] example_reply_text(7) have c1:
    "sent (snd (generate_curriculum (example_platform example_reply steady_clock)
          example_generator (Some (ascii ''Alex'')) 3 (Some [ascii ''Math'', ascii ''Science''])
          (ascii ''visual'') 36 5 (Some (ascii ''Read daily'')) new_world)) =
         [build_request example_generator (build_prompt (Some (ascii ''Alex'')) 3
            (ascii ''Math, Science'') (ascii ''visual'') 36 5 (Some (ascii ''Read daily'')))]"
    by (simp add: truthy_def new_world_def)
  from given [THEN conjunct2, THEN conjunct2, THEN conjunct1] example_reply_text(7) have c2:
    "sublist (ascii ''\<newline>Subjects to cover: Math, Science\<newline>Learning style: '')
         (build_prompt (Some (ascii ''Alex'')) 3 (ascii ''Math, Science'') (ascii ''visual'') 36 5
            (Some (ascii ''Read daily'')))"
    by (simp add: truthy_def new_world_def)
  from given [THEN conjunct2, THEN conjunct2, THEN conjunct2, THEN conjunct2, THEN conjunct1] example_reply_text(7) have c3:
    "sublist (ascii '' days per week\<newline>Learning goals: Read daily\<newline>\<newline>Please provide:\<newline>'')
         (build_prompt (Some (ascii ''Alex'')) 3 (ascii ''Math, Science'') (ascii ''visual'') 36 5
            (Some (ascii ''Read daily'')))"
    by (simp add: truthy_def new_world_def)
  from given [THEN conjunct2, THEN conjunct2, THEN conjunct2, THEN conjunct2, THEN conjunct2, THEN conjunct2, THEN conjunct2, THEN conjunct1] example_reply_text(7) have c4:
    "sublist (ascii '' grade student named Alex.\<newline>\<newline>Subjects to cover: '')
         (build_prompt (Some (ascii ''Alex'')) 3 (ascii ''Math, Science'') (ascii ''visual'') 36 5
            (Some (ascii ''Read daily'')))"
    by (simp add: truthy_def new_world_def)
  from given [THEN conjunct2, THEN conjunct2, THEN conjunct2, THEN conjunct2, THEN conjunct2, THEN conjunct2, THEN conjunct1] example_reply_text(7) have c5:
    "build_prompt (Some (ascii ''Alex'')) 3 (ascii ''Math, Science'') (ascii ''visual'') 36 5
         (Some (ascii ''Read daily'')) \<noteq>
       build_prompt (Some (ascii ''Alex'')) 3 (ascii ''Math, Science'') (ascii ''visual'') 36 5 None"
    by (simp add: truthy_def new_world_def)
  from absent [THEN conjunct2, THEN conjunct2, THEN conjunct2, THEN conjunct2, THEN conjunct2, THEN conjunct1] example_reply_text(7) have c6:
    "sublist (ascii '' days per week\<newline>\<newline>\<newline>Please provide:\<newline>'')
         (build_prompt None 3 (ascii ''Math, Science'') (ascii ''visual'') 36 5 (Some []))"
    by (simp add: truthy_def new_world_def)
  from absent [THEN conjunct2, THEN conjunct2, THEN conjunct2, THEN conjunct2, THEN conjunct2, THEN conjunct2, THEN conjunct2, THEN conjunct2] example_reply_text(7) have c7:
    "sublist (ascii '' grade student named Student.\<newline>\<newline>Subjects to cover: '')
         (build_prompt None 3 (ascii ''Math, Science'') (ascii ''visual'') 36 5 (Some []))"
    by (simp add: truthy_def new_world_def)
  from absent [THEN conjunct2, THEN conjunct2, THEN conjunct2, THEN conjunct2, THEN conjunct2, THEN conjunct2, THEN conjunct1] example_reply_text(7) have c8:
    "build_prompt None 3 (ascii ''Math, Science'') (ascii ''visual'') 36 5 (Some []) =
       build_prompt None 3 (ascii ''Math, Science'') (ascii ''visual'') 36 5 None"
    by (simp add: truthy_def new_world_def)
  from c1 c2 c3 c4 c5 c6 c7 c8 show ?thesis
    by (intro conjI)
qed

end
